theory Spec2Isabelle
  imports Complex_Main "HOL-Library.AList"
begin

section \<open>Byte strings (Go package strings)\<close>

text \<open>
  A Go \<^verbatim>\<open>string\<close> and a \<^verbatim>\<open>[]byte\<close> are sequences of bytes; both are modelled by
  \<^typ>\<open>string\<close>, a list of 8-bit characters. The functions below follow the
  argument order of package \<^verbatim>\<open>strings\<close>.
\<close>

definition newline :: string where
  "newline = [CHR 0x0A]"

definition HasPrefix :: "string \<Rightarrow> string \<Rightarrow> bool" where
  "HasPrefix s p = (take (length p) s = p)"

definition TrimPrefix :: "string \<Rightarrow> string \<Rightarrow> string" where
  "TrimPrefix s p = (if HasPrefix s p then drop (length p) s else s)"

fun Contains :: "string \<Rightarrow> string \<Rightarrow> bool" where
  "Contains [] sub = (sub = [])"
| "Contains (c # cs) sub = (HasPrefix (c # cs) sub \<or> Contains cs sub)"

fun Join :: "string list \<Rightarrow> string \<Rightarrow> string" where
  "Join [] sep = []"
| "Join [x] sep = x"
| "Join (x # y # zs) sep = x @ sep @ Join (y # zs) sep"

text \<open>
  \<^verbatim>\<open>strings.TrimSpace\<close> removes leading and trailing white space as Unicode defines it.
  On bytes these are the six ASCII space characters and the UTF-8 encodings of
  U+0085, U+00A0, U+1680, U+2000..U+200A, U+2028, U+2029, U+202F, U+205F and U+3000.
  A byte sequence that is not valid UTF-8 decodes to the replacement rune, which is
  not a space, so trimming stops there.
\<close>

definition spaceRunes :: "string list" where
  "spaceRunes =
    [[CHR 0x09], [CHR 0x0A], [CHR 0x0B], [CHR 0x0C], [CHR 0x0D], [CHR 0x20],
     [CHR 0xC2, CHR 0x85], [CHR 0xC2, CHR 0xA0],
     [CHR 0xE1, CHR 0x9A, CHR 0x80],
     [CHR 0xE2, CHR 0x80, CHR 0x80], [CHR 0xE2, CHR 0x80, CHR 0x81],
     [CHR 0xE2, CHR 0x80, CHR 0x82], [CHR 0xE2, CHR 0x80, CHR 0x83],
     [CHR 0xE2, CHR 0x80, CHR 0x84], [CHR 0xE2, CHR 0x80, CHR 0x85],
     [CHR 0xE2, CHR 0x80, CHR 0x86], [CHR 0xE2, CHR 0x80, CHR 0x87],
     [CHR 0xE2, CHR 0x80, CHR 0x88], [CHR 0xE2, CHR 0x80, CHR 0x89],
     [CHR 0xE2, CHR 0x80, CHR 0x8A],
     [CHR 0xE2, CHR 0x80, CHR 0xA8], [CHR 0xE2, CHR 0x80, CHR 0xA9],
     [CHR 0xE2, CHR 0x80, CHR 0xAF], [CHR 0xE2, CHR 0x81, CHR 0x9F],
     [CHR 0xE3, CHR 0x80, CHR 0x80]]"

text \<open>The width in bytes of the white-space rune a string starts with, 0 if none.\<close>

definition leadingSpace :: "string list \<Rightarrow> string \<Rightarrow> nat" where
  "leadingSpace runes s =
     (case List.find (\<lambda>p. HasPrefix s p) runes of None \<Rightarrow> 0 | Some p \<Rightarrow> length p)"

function trimLeading :: "string list \<Rightarrow> string \<Rightarrow> string" where
  "trimLeading runes s =
     (if leadingSpace runes s = 0 \<or> s = [] then s
      else trimLeading runes (drop (leadingSpace runes s) s))"
  by pat_completeness auto
termination
  by (relation "measure (\<lambda>(runes, s). length s)") auto

declare trimLeading.simps [simp del]

definition TrimLeftSpace :: "string \<Rightarrow> string" where
  "TrimLeftSpace s = trimLeading spaceRunes s"

definition TrimRightSpace :: "string \<Rightarrow> string" where
  "TrimRightSpace s = rev (trimLeading (map rev spaceRunes) (rev s))"

definition TrimSpace :: "string \<Rightarrow> string" where
  "TrimSpace s = TrimRightSpace (TrimLeftSpace s)"

section \<open>JSON values (Go package encoding/json)\<close>

text \<open>
  A decoded JSON value, as \<^verbatim>\<open>json.Unmarshal\<close> stores it in an \<^verbatim>\<open>interface{}\<close>:
  \<^verbatim>\<open>nil\<close>, \<^verbatim>\<open>bool\<close>, \<^verbatim>\<open>float64\<close> (a finite one, hence a rational), \<^verbatim>\<open>string\<close>,
  \<^verbatim>\<open>[]interface{}\<close> or \<^verbatim>\<open>map[string]interface{}\<close>. A \<^verbatim>\<open>json.RawMessage\<close> holding
  the text of a value is modelled by the value too. A Go map is an association list
  with distinct keys; the order of its keys carries no meaning.
\<close>

datatype json =
    JNull
  | JBool bool
  | JNumber rat
  | JString string
  | JArray "json list"
  | JObject "(string \<times> json) list"

text \<open>
  Decoding a JSON object into a map stores the members in the order of the text, a
  later member replacing an earlier one of the same key; entries the map already has
  are kept.
\<close>

definition storeMembers :: "(string \<times> json) list \<Rightarrow> (string \<times> json) list \<Rightarrow> (string \<times> json) list" where
  "storeMembers kvs m = fold (\<lambda>(k, v). AList.update k v) kvs m"

text \<open>\<^verbatim>\<open>json.Unmarshal(data, &s)\<close> for \<^verbatim>\<open>var s string\<close>; \<^verbatim>\<open>None\<close> is a non-nil error.\<close>

fun unmarshalString :: "json \<Rightarrow> string option" where
  "unmarshalString (JString s) = Some s"
| "unmarshalString JNull = Some []"
| "unmarshalString _ = None"

text \<open>
  \<^verbatim>\<open>json.Unmarshal(data, &m)\<close> for \<^verbatim>\<open>var m map[string]interface{}\<close>: the outer
  \<^verbatim>\<open>None\<close> is an error, \<^verbatim>\<open>Some None\<close> the nil map that JSON \<^verbatim>\<open>null\<close> leaves.
\<close>

fun unmarshalMap :: "json \<Rightarrow> (string \<times> json) list option option" where
  "unmarshalMap (JObject kvs) = Some (Some (storeMembers kvs []))"
| "unmarshalMap JNull = Some None"
| "unmarshalMap _ = None"

text \<open>Reading a key of a map that may be nil: a nil map reads as empty.\<close>

definition mapIndex :: "(string \<times> json) list option \<Rightarrow> string \<Rightarrow> json" where
  "mapIndex m k = (case m of None \<Rightarrow> JNull
                   | Some kvs \<Rightarrow> (case map_of kvs k of None \<Rightarrow> JNull | Some v \<Rightarrow> v))"

text \<open>The type assertion \<^verbatim>\<open>v.(map[string]interface{})\<close> on a decoded value.\<close>

fun asMap :: "json \<Rightarrow> (string \<times> json) list option" where
  "asMap (JObject kvs) = Some (storeMembers kvs [])"
| "asMap _ = None"

text \<open>\<^verbatim>\<open>json.Unmarshal(data, &parts)\<close> for \<^verbatim>\<open>var parts []map[string]interface{}\<close>.\<close>

fun unmarshalMaps :: "json \<Rightarrow> (string \<times> json) list option list option" where
  "unmarshalMaps (JArray xs) =
     (if list_all (\<lambda>x. unmarshalMap x \<noteq> None) xs
      then Some (map (\<lambda>x. the (unmarshalMap x)) xs) else None)"
| "unmarshalMaps JNull = Some []"
| "unmarshalMaps _ = None"

text \<open>
  Field names of a struct match the keys of a JSON object without regard to the case
  of ASCII letters. (The Unicode folding of encoding/json only adds other spellings of
  the letters k and s, which no field name below contains.)
\<close>

definition lowerASCII :: "char \<Rightarrow> char" where
  "lowerASCII c = (let n = (of_char c :: nat) in if 65 \<le> n \<and> n \<le> 90 then char_of (n + 32) else c)"

definition equalFold :: "string \<Rightarrow> string \<Rightarrow> bool" where
  "equalFold a b = (map lowerASCII a = map lowerASCII b)"

text \<open>
  Storing a JSON value into a struct field of type \<^verbatim>\<open>string\<close> or
  \<^verbatim>\<open>map[string]interface{}\<close> that holds \<open>old\<close>: \<^verbatim>\<open>null\<close> leaves a string as it is and
  makes a map nil; a value of another JSON type is an error (\<open>None\<close>).
\<close>

fun storeString :: "json \<Rightarrow> string \<Rightarrow> string option" where
  "storeString (JString s) old = Some s"
| "storeString JNull old = Some old"
| "storeString _ old = None"

fun storeMap :: "json \<Rightarrow> (string \<times> json) list option \<Rightarrow> (string \<times> json) list option option" where
  "storeMap (JObject kvs) old = Some (Some (storeMembers kvs (case old of None \<Rightarrow> [] | Some m \<Rightarrow> m)))"
| "storeMap JNull old = Some None"
| "storeMap _ old = None"

section \<open>The DeepSeek proxy: data model (proxy.go)\<close>

definition deepseekEndpoint :: string where "deepseekEndpoint = ''https://api.deepseek.com''"
definition deepseekBetaEndpoint :: string where "deepseekBetaEndpoint = ''https://api.deepseek.com/beta''"
definition deepseekChatModel :: string where "deepseekChatModel = ''deepseek-chat''"
definition deepseekCoderModel :: string where "deepseekCoderModel = ''deepseek-coder''"
definition deepseekReasonerModel :: string where "deepseekReasonerModel = ''deepseek-reasoner''"

record Config =
  endpoint :: string
  model :: string

text \<open>
  \<^verbatim>\<open>ToolCall\<close>, and the \<^verbatim>\<open>ClaudeToolCall\<close> and \<^verbatim>\<open>OpenAIToolCall\<close> of the Claude proxy,
  which declare the same fields; the nested \<^verbatim>\<open>Function\<close> struct is flattened.
\<close>

record ToolCall =
  tc_ID :: string
  tc_Type :: string
  tc_Function_Name :: string
  tc_Function_Arguments :: string

text \<open>\<^verbatim>\<open>Message\<close>: \<^verbatim>\<open>Content\<close> is a \<^verbatim>\<open>json.RawMessage\<close>, \<open>None\<close> when nil.\<close>

record Message =
  msg_Role :: string
  msg_Content :: "json option"
  msg_ToolCalls :: "ToolCall list"
  msg_ToolCallID :: string
  msg_Name :: string

record ContentPart =
  cp_Type :: string
  cp_Text :: string

record Function =
  fn_Name :: string
  fn_Description :: string
  fn_Parameters :: json

record Tool =
  tool_Type :: string
  tool_Function :: Function

record ChatRequest =
  cr_Model :: string
  cr_Messages :: "Message list"
  cr_Stream :: bool
  cr_Functions :: "Function list"
  cr_Tools :: "Tool list"
  cr_ToolChoice :: json
  cr_Temperature :: "rat option"
  cr_MaxTokens :: "int option"

record DeepSeekRequest =
  dr_Model :: string
  dr_Messages :: "Message list"
  dr_Stream :: bool
  dr_Temperature :: rat
  dr_MaxTokens :: int
  dr_Tools :: "Tool list"
  dr_ToolChoice :: string

section \<open>The DeepSeek proxy: request translation\<close>

text \<open>\<^verbatim>\<open>json.Unmarshal(m.Content, &parts)\<close> for \<^verbatim>\<open>var parts []ContentPart\<close>.\<close>

fun storeContentPart :: "(string \<times> json) list \<Rightarrow> ContentPart \<Rightarrow> ContentPart option" where
  "storeContentPart [] p = Some p"
| "storeContentPart ((k, v) # kvs) p =
     (if equalFold k ''type'' then
        (case storeString v (cp_Type p) of None \<Rightarrow> None
         | Some s \<Rightarrow> storeContentPart kvs (p\<lparr>cp_Type := s\<rparr>))
      else if equalFold k ''text'' then
        (case storeString v (cp_Text p) of None \<Rightarrow> None
         | Some s \<Rightarrow> storeContentPart kvs (p\<lparr>cp_Text := s\<rparr>))
      else storeContentPart kvs p)"

fun unmarshalContentPart :: "json \<Rightarrow> ContentPart option" where
  "unmarshalContentPart (JObject kvs) = storeContentPart kvs \<lparr>cp_Type = [], cp_Text = []\<rparr>"
| "unmarshalContentPart JNull = Some \<lparr>cp_Type = [], cp_Text = []\<rparr>"
| "unmarshalContentPart _ = None"

fun unmarshalContentParts :: "json \<Rightarrow> ContentPart list option" where
  "unmarshalContentParts (JArray xs) =
     (if list_all (\<lambda>x. unmarshalContentPart x \<noteq> None) xs
      then Some (map (\<lambda>x. the (unmarshalContentPart x)) xs) else None)"
| "unmarshalContentParts JNull = Some []"
| "unmarshalContentParts _ = None"

definition GetContentString :: "Message \<Rightarrow> string" where
  "GetContentString m =
     (case msg_Content m of
        None \<Rightarrow> []
      | Some c \<Rightarrow>
          (case unmarshalString c of
             Some strContent \<Rightarrow> strContent
           | None \<Rightarrow>
               (case unmarshalContentParts c of
                  Some parts \<Rightarrow>
                    Join (map cp_Text (filter (\<lambda>part. cp_Type part = ''text'' \<and> cp_Text part \<noteq> []) parts))
                         newline
                | None \<Rightarrow> [])))"

text \<open>
  \<^verbatim>\<open>SetContentString\<close> stores the JSON encoding of a string. Every string it is given
  here was decoded from JSON, so encoding it loses nothing.
\<close>

definition SetContentString :: "Message \<Rightarrow> string \<Rightarrow> Message" where
  "SetContentString m content = m\<lparr>msg_Content := Some (JString content)\<rparr>"

fun convertToolChoice :: "json \<Rightarrow> string" where
  "convertToolChoice JNull = []"
| "convertToolChoice (JString str) = (if str = ''auto'' \<or> str = ''none'' then str else [])"
| "convertToolChoice (JObject kvs) =
     (if mapIndex (Some (storeMembers kvs [])) ''type'' = JString ''function'' then ''auto'' else [])"
| "convertToolChoice _ = []"

text \<open>The body of the loop of \<^verbatim>\<open>convertMessages\<close>, for one message.\<close>

definition convertMessage :: "Message \<Rightarrow> Message" where
  "convertMessage msg =
     (let converted = SetContentString msg (GetContentString msg);
          converted = (if msg_Role msg = ''assistant'' \<and> length (msg_ToolCalls msg) > 0
                       then converted\<lparr>msg_ToolCalls :=
                              map (\<lambda>tc. tc\<lparr>tc_Type := ''function''\<rparr>) (msg_ToolCalls msg)\<rparr>
                       else converted)
      in if msg_Role msg = ''function'' then converted\<lparr>msg_Role := ''tool''\<rparr> else converted)"

definition convertMessages :: "Message list \<Rightarrow> Message list" where
  "convertMessages messages = map convertMessage messages"

text \<open>
  The request sent upstream, as \<^verbatim>\<open>proxyHandler\<close> builds it from the decoded request
  (proxy.go, lines 379 to 423).
\<close>

definition requestModelOf :: "ChatRequest \<Rightarrow> string" where
  "requestModelOf chatReq = (if cr_Model chatReq = [] then deepseekChatModel else cr_Model chatReq)"

definition toDeepSeekRequest :: "ChatRequest \<Rightarrow> DeepSeekRequest" where
  "toDeepSeekRequest chatReq =
     (let deepseekReq = \<lparr>dr_Model = requestModelOf chatReq,
                         dr_Messages = convertMessages (cr_Messages chatReq),
                         dr_Stream = cr_Stream chatReq,
                         dr_Temperature = (case cr_Temperature chatReq of None \<Rightarrow> 0 | Some t \<Rightarrow> t),
                         dr_MaxTokens = (case cr_MaxTokens chatReq of None \<Rightarrow> 0 | Some n \<Rightarrow> n),
                         dr_Tools = [],
                         dr_ToolChoice = []\<rparr>
      in if length (cr_Tools chatReq) > 0 then
           deepseekReq\<lparr>dr_Tools := cr_Tools chatReq,
                       dr_ToolChoice := convertToolChoice (cr_ToolChoice chatReq)\<rparr>
         else if length (cr_Functions chatReq) > 0 then
           deepseekReq\<lparr>dr_Tools := map (\<lambda>fn. \<lparr>tool_Type = ''function'', tool_Function = fn\<rparr>)
                                          (cr_Functions chatReq),
                       dr_ToolChoice := convertToolChoice (cr_ToolChoice chatReq)\<rparr>
         else deepseekReq)"

section \<open>The Claude proxy: data model (proxy-poe.go)\<close>

definition openAIEndpoint :: string where "openAIEndpoint = ''https://api.poe.com''"
definition claudeSonnetModel :: string where "claudeSonnetModel = ''claude-sonnet-4.5''"
definition defaultOpenAIModel :: string where "defaultOpenAIModel = ''claude-sonnet-4.5''"

record ClaudeMessage =
  cm_Role :: string
  cm_Content :: "json option"
  cm_ToolCalls :: "ToolCall list"
  cm_ToolCallID :: string
  cm_Name :: string

record ClaudeContentPart =
  ccp_Type :: string
  ccp_Text :: string
  ccp_CacheControl :: "(string \<times> json) list option"
  ccp_ID :: string
  ccp_Name :: string
  ccp_Input :: "(string \<times> json) list option"

record ClaudeSystemMessage =
  csm_Type :: string
  csm_Text :: string
  csm_CacheControl :: "(string \<times> json) list option"

record ClaudeTool =
  ct_Name :: string
  ct_Description :: string
  ct_InputSchema :: "(string \<times> json) list option"

record ClaudeRequest =
  clr_Model :: string
  clr_Messages :: "ClaudeMessage list"
  clr_MaxTokens :: "int option"
  clr_System :: "ClaudeSystemMessage list"
  clr_Tools :: "ClaudeTool list"
  clr_ToolChoice :: json
  clr_Temperature :: "rat option"
  clr_Stream :: bool
  clr_StreamOptions :: "(string \<times> json) list option"
  clr_Metadata :: "(string \<times> json) list option"

text \<open>\<^verbatim>\<open>OpenAIMessage\<close>: \<^verbatim>\<open>Content\<close> is an \<^verbatim>\<open>interface{}\<close>, \<open>JNull\<close> when nil.\<close>

record OpenAIMessage =
  om_Role :: string
  om_Content :: json
  om_ToolCalls :: "ToolCall list"
  om_ToolCallID :: string
  om_Name :: string

record OpenAIFunc =
  of_Name :: string
  of_Description :: string
  of_Parameters :: "(string \<times> json) list option"

record OpenAITool =
  ot_Type :: string
  ot_Function :: OpenAIFunc

record OpenAIRequest =
  oar_Model :: string
  oar_Messages :: "OpenAIMessage list"
  oar_MaxTokens :: "int option"
  oar_Temperature :: "rat option"
  oar_Stream :: bool
  oar_Tools :: "OpenAITool list"
  oar_ToolChoice :: json

section \<open>The Claude proxy: request translation\<close>

text \<open>\<^verbatim>\<open>json.Unmarshal(msg.Content, &parts)\<close> for \<^verbatim>\<open>var parts []ClaudeContentPart\<close>.\<close>

fun storeClaudeContentPart :: "(string \<times> json) list \<Rightarrow> ClaudeContentPart \<Rightarrow> ClaudeContentPart option" where
  "storeClaudeContentPart [] p = Some p"
| "storeClaudeContentPart ((k, v) # kvs) p =
     (if equalFold k ''type'' then
        (case storeString v (ccp_Type p) of None \<Rightarrow> None
         | Some s \<Rightarrow> storeClaudeContentPart kvs (p\<lparr>ccp_Type := s\<rparr>))
      else if equalFold k ''text'' then
        (case storeString v (ccp_Text p) of None \<Rightarrow> None
         | Some s \<Rightarrow> storeClaudeContentPart kvs (p\<lparr>ccp_Text := s\<rparr>))
      else if equalFold k ''cache_control'' then
        (case storeMap v (ccp_CacheControl p) of None \<Rightarrow> None
         | Some m \<Rightarrow> storeClaudeContentPart kvs (p\<lparr>ccp_CacheControl := m\<rparr>))
      else if equalFold k ''id'' then
        (case storeString v (ccp_ID p) of None \<Rightarrow> None
         | Some s \<Rightarrow> storeClaudeContentPart kvs (p\<lparr>ccp_ID := s\<rparr>))
      else if equalFold k ''name'' then
        (case storeString v (ccp_Name p) of None \<Rightarrow> None
         | Some s \<Rightarrow> storeClaudeContentPart kvs (p\<lparr>ccp_Name := s\<rparr>))
      else if equalFold k ''input'' then
        (case storeMap v (ccp_Input p) of None \<Rightarrow> None
         | Some m \<Rightarrow> storeClaudeContentPart kvs (p\<lparr>ccp_Input := m\<rparr>))
      else storeClaudeContentPart kvs p)"

definition zeroClaudeContentPart :: ClaudeContentPart where
  "zeroClaudeContentPart =
     \<lparr>ccp_Type = [], ccp_Text = [], ccp_CacheControl = None, ccp_ID = [], ccp_Name = [],
      ccp_Input = None\<rparr>"

fun unmarshalClaudeContentPart :: "json \<Rightarrow> ClaudeContentPart option" where
  "unmarshalClaudeContentPart (JObject kvs) = storeClaudeContentPart kvs zeroClaudeContentPart"
| "unmarshalClaudeContentPart JNull = Some zeroClaudeContentPart"
| "unmarshalClaudeContentPart _ = None"

fun unmarshalClaudeContentParts :: "json \<Rightarrow> ClaudeContentPart list option" where
  "unmarshalClaudeContentParts (JArray xs) =
     (if list_all (\<lambda>x. unmarshalClaudeContentPart x \<noteq> None) xs
      then Some (map (\<lambda>x. the (unmarshalClaudeContentPart x)) xs) else None)"
| "unmarshalClaudeContentParts JNull = Some []"
| "unmarshalClaudeContentParts _ = None"

text \<open>A map-typed field as a JSON value: a nil map is \<^verbatim>\<open>null\<close>.\<close>

definition mapValue :: "(string \<times> json) list option \<Rightarrow> json" where
  "mapValue m = (case m of None \<Rightarrow> JNull | Some kvs \<Rightarrow> JObject kvs)"

text \<open>The synthetic system message, from the \<^verbatim>\<open>system\<close> blocks of the request.\<close>

definition systemMessages :: "ClaudeRequest \<Rightarrow> OpenAIMessage list" where
  "systemMessages claudeReq =
     (let systemTexts = filter (\<lambda>t. t \<noteq> []) (map csm_Text (clr_System claudeReq))
      in if length (clr_System claudeReq) > 0 \<and> length systemTexts > 0
         then [\<lparr>om_Role = ''system'', om_Content = JString (Join systemTexts (newline @ newline)),
                om_ToolCalls = [], om_ToolCallID = [], om_Name = []\<rparr>]
         else [])"

text \<open>
  The tool-role message built from one part of type \<^verbatim>\<open>tool_result\<close>
  (proxy-poe.go, lines 590 to 614).
\<close>

definition resultText :: "json \<Rightarrow> string list" where
  "resultText c =
     (case asMap c of None \<Rightarrow> []
      | Some contentMap \<Rightarrow>
          (case mapIndex (Some contentMap) ''text'' of JString text \<Rightarrow> [text] | _ \<Rightarrow> []))"

definition toolResultMessage :: "(string \<times> json) list option \<Rightarrow> OpenAIMessage" where
  "toolResultMessage part =
     \<lparr>om_Role = ''tool'',
      om_Content =
        (case mapIndex part ''content'' of
           JArray content \<Rightarrow>
             (let resultTexts = concat (map resultText content)
              in if length resultTexts > 0 then JString (Join resultTexts newline) else JNull)
         | JString contentStr \<Rightarrow> JString contentStr
         | _ \<Rightarrow> JNull),
      om_ToolCalls = [],
      om_ToolCallID = (case mapIndex part ''tool_use_id'' of JString toolUseID \<Rightarrow> toolUseID | _ \<Rightarrow> []),
      om_Name = []\<rparr>"

text \<open>
  The loop over the parts of a user message: the flag \<^verbatim>\<open>hasToolResult\<close> and the
  message list, after one part.
\<close>

definition toolResultStep ::
  "(string \<times> json) list option \<Rightarrow> bool \<times> OpenAIMessage list \<Rightarrow> bool \<times> OpenAIMessage list" where
  "toolResultStep part st =
     (if mapIndex part ''type'' = JString ''tool_result''
      then (True, snd st @ [toolResultMessage part])
      else st)"

text \<open>
  The loop over the typed parts of a message (lines 648 to 666): the text parts and
  the tool calls collected so far. \<^verbatim>\<open>marshal\<close> is \<^verbatim>\<open>json.Marshal\<close>, whose error the code
  drops, leaving empty arguments.
\<close>

definition contentPartStep ::
  "(json \<Rightarrow> string option) \<Rightarrow> ClaudeContentPart \<Rightarrow> string list \<times> ToolCall list \<Rightarrow> string list \<times> ToolCall list" where
  "contentPartStep marshal part st =
     (if ccp_Type part = ''text'' \<and> ccp_Text part \<noteq> [] then (fst st @ [ccp_Text part], snd st)
      else if ccp_Type part = ''tool_use'' then
        (fst st,
         snd st @ [\<lparr>tc_ID = ccp_ID part, tc_Type = ''function'', tc_Function_Name = ccp_Name part,
                    tc_Function_Arguments =
                      (case marshal (mapValue (ccp_Input part)) of None \<Rightarrow> [] | Some inputJSON \<Rightarrow> inputJSON)\<rparr>])
      else st)"

text \<open>The regular translation of a message, before the decision to emit it (lines 628 to 695).\<close>

definition regularMessage :: "(json \<Rightarrow> string option) \<Rightarrow> ClaudeMessage \<Rightarrow> OpenAIMessage" where
  "regularMessage marshal msg =
     (let openAIMsg = \<lparr>om_Role = cm_Role msg, om_Content = JNull, om_ToolCalls = [],
                       om_ToolCallID = cm_ToolCallID msg, om_Name = cm_Name msg\<rparr>;
          openAIMsg =
            (case cm_Content msg of
               None \<Rightarrow> openAIMsg
             | Some c \<Rightarrow>
                 (case unmarshalString c of
                    Some strContent \<Rightarrow> openAIMsg\<lparr>om_Content := JString strContent\<rparr>
                  | None \<Rightarrow>
                      (case unmarshalClaudeContentParts c of
                         None \<Rightarrow> openAIMsg
                       | Some parts \<Rightarrow>
                           (let (textParts, toolCalls) = fold (contentPartStep marshal) parts ([], []);
                                openAIMsg = (if length textParts > 0
                                             then openAIMsg\<lparr>om_Content := JString (Join textParts newline)\<rparr>
                                             else openAIMsg)
                            in if length toolCalls > 0 then openAIMsg\<lparr>om_ToolCalls := toolCalls\<rparr>
                               else openAIMsg))))
      in if length (cm_ToolCalls msg) > 0
         then openAIMsg\<lparr>om_ToolCalls :=
                map (\<lambda>tc. \<lparr>tc_ID = tc_ID tc, tc_Type = tc_Type tc,
                           tc_Function_Name = tc_Function_Name tc,
                           tc_Function_Arguments = tc_Function_Arguments tc\<rparr>) (cm_ToolCalls msg)\<rparr>
         else openAIMsg)"

definition hasContent :: "OpenAIMessage \<Rightarrow> bool" where
  "hasContent openAIMsg =
     (om_Content openAIMsg \<noteq> JNull \<and>
      (case om_Content openAIMsg of JString contentStr \<Rightarrow> contentStr | _ \<Rightarrow> []) \<noteq> [])"

definition hasToolCalls :: "OpenAIMessage \<Rightarrow> bool" where
  "hasToolCalls openAIMsg = (length (om_ToolCalls openAIMsg) > 0)"

text \<open>One round of the loop over \<^verbatim>\<open>claudeReq.Messages\<close> (lines 580 to 711).\<close>

definition convertClaudeMessage ::
  "(json \<Rightarrow> string option) \<Rightarrow> ClaudeMessage \<Rightarrow> OpenAIMessage list \<Rightarrow> OpenAIMessage list" where
  "convertClaudeMessage marshal msg messages =
     (let (hasToolResult, messages') =
            (if cm_Role msg = ''user'' \<and> cm_Content msg \<noteq> None then
               (case unmarshalMaps (the (cm_Content msg)) of
                  Some parts \<Rightarrow> fold toolResultStep parts (False, messages)
                | None \<Rightarrow> (False, messages))
             else (False, messages))
      in if hasToolResult then messages'
         else
           (let openAIMsg = regularMessage marshal msg
            in if hasContent openAIMsg \<or> hasToolCalls openAIMsg then
                 messages' @
                   [if om_Role openAIMsg = ''assistant'' \<and> hasToolCalls openAIMsg \<and> \<not> hasContent openAIMsg
                    then openAIMsg\<lparr>om_Content := JNull\<rparr> else openAIMsg]
               else messages'))"

definition convertClaudeToOpenAI :: "(json \<Rightarrow> string option) \<Rightarrow> ClaudeRequest \<Rightarrow> OpenAIRequest" where
  "convertClaudeToOpenAI marshal claudeReq =
     \<lparr>oar_Model = (if clr_Model claudeReq = [] then defaultOpenAIModel else clr_Model claudeReq),
      oar_Messages = fold (convertClaudeMessage marshal) (clr_Messages claudeReq) (systemMessages claudeReq),
      oar_MaxTokens = clr_MaxTokens claudeReq,
      oar_Temperature = clr_Temperature claudeReq,
      oar_Stream = clr_Stream claudeReq,
      oar_Tools = map (\<lambda>tool. \<lparr>ot_Type = ''function'',
                               ot_Function = \<lparr>of_Name = ct_Name tool,
                                              of_Description = ct_Description tool,
                                              of_Parameters = ct_InputSchema tool\<rparr>\<rparr>)
                      (clr_Tools claudeReq),
      oar_ToolChoice = clr_ToolChoice claudeReq\<rparr>"

section \<open>Serialization (struct tags)\<close>

text \<open>
  What \<^verbatim>\<open>json.Marshal\<close> makes of each struct, as a JSON value: the members in the
  order of the fields, a field tagged \<^verbatim>\<open>omitempty\<close> left out when it is empty (a nil
  interface or pointer, an empty string or slice, zero). A nil slice without the tag
  is \<^verbatim>\<open>null\<close>.
\<close>

definition encodeToolCall :: "ToolCall \<Rightarrow> json" where
  "encodeToolCall tc =
     JObject [(''id'', JString (tc_ID tc)), (''type'', JString (tc_Type tc)),
              (''function'', JObject [(''name'', JString (tc_Function_Name tc)),
                                      (''arguments'', JString (tc_Function_Arguments tc))])]"

definition omitEmptyString :: "string \<Rightarrow> string \<Rightarrow> (string \<times> json) list" where
  "omitEmptyString key v = (if v = [] then [] else [(key, JString v)])"

definition omitEmptyToolCalls :: "ToolCall list \<Rightarrow> (string \<times> json) list" where
  "omitEmptyToolCalls tcs = (if tcs = [] then [] else [(''tool_calls'', JArray (map encodeToolCall tcs))])"

definition omitEmptyNumber :: "string \<Rightarrow> rat option \<Rightarrow> (string \<times> json) list" where
  "omitEmptyNumber key v = (case v of None \<Rightarrow> [] | Some x \<Rightarrow> [(key, JNumber x)])"

definition encodeOpenAIMessage :: "OpenAIMessage \<Rightarrow> json" where
  "encodeOpenAIMessage m =
     JObject ([(''role'', JString (om_Role m))]
              @ (if om_Content m = JNull then [] else [(''content'', om_Content m)])
              @ omitEmptyToolCalls (om_ToolCalls m)
              @ omitEmptyString ''tool_call_id'' (om_ToolCallID m)
              @ omitEmptyString ''name'' (om_Name m))"

definition encodeOpenAITool :: "OpenAITool \<Rightarrow> json" where
  "encodeOpenAITool t =
     JObject [(''type'', JString (ot_Type t)),
              (''function'', JObject [(''name'', JString (of_Name (ot_Function t))),
                                      (''description'', JString (of_Description (ot_Function t))),
                                      (''parameters'', mapValue (of_Parameters (ot_Function t)))])]"

definition encodeOpenAIRequest :: "OpenAIRequest \<Rightarrow> json" where
  "encodeOpenAIRequest r =
     JObject ([(''model'', JString (oar_Model r)),
               (''messages'', if oar_Messages r = [] then JNull
                              else JArray (map encodeOpenAIMessage (oar_Messages r)))]
              @ omitEmptyNumber ''max_tokens'' (map_option of_int (oar_MaxTokens r))
              @ omitEmptyNumber ''temperature'' (oar_Temperature r)
              @ [(''stream'', JBool (oar_Stream r))]
              @ (if oar_Tools r = [] then [] else [(''tools'', JArray (map encodeOpenAITool (oar_Tools r)))])
              @ (if oar_ToolChoice r = JNull then [] else [(''tool_choice'', oar_ToolChoice r)]))"

definition encodeMessage :: "Message \<Rightarrow> json" where
  "encodeMessage m =
     JObject ([(''role'', JString (msg_Role m))]
              @ (case msg_Content m of None \<Rightarrow> [] | Some c \<Rightarrow> [(''content'', c)])
              @ omitEmptyToolCalls (msg_ToolCalls m)
              @ omitEmptyString ''tool_call_id'' (msg_ToolCallID m)
              @ omitEmptyString ''name'' (msg_Name m))"

definition encodeTool :: "Tool \<Rightarrow> json" where
  "encodeTool t =
     JObject [(''type'', JString (tool_Type t)),
              (''function'', JObject [(''name'', JString (fn_Name (tool_Function t))),
                                      (''description'', JString (fn_Description (tool_Function t))),
                                      (''parameters'', fn_Parameters (tool_Function t))])]"

definition encodeDeepSeekRequest :: "DeepSeekRequest \<Rightarrow> json" where
  "encodeDeepSeekRequest r =
     JObject ([(''model'', JString (dr_Model r)),
               (''messages'', JArray (map encodeMessage (dr_Messages r))),
               (''stream'', JBool (dr_Stream r))]
              @ (if dr_Temperature r = 0 then [] else [(''temperature'', JNumber (dr_Temperature r))])
              @ (if dr_MaxTokens r = 0 then [] else [(''max_tokens'', JNumber (of_int (dr_MaxTokens r)))])
              @ (if dr_Tools r = [] then [] else [(''tools'', JArray (map encodeTool (dr_Tools r)))])
              @ omitEmptyString ''tool_choice'' (dr_ToolChoice r))"

text \<open>The member of a JSON object that a reader of the text finds under a key.\<close>

definition jsonMember :: "json \<Rightarrow> string \<Rightarrow> json option" where
  "jsonMember j key = (case j of JObject kvs \<Rightarrow> map_of (rev kvs) key | _ \<Rightarrow> None)"

section \<open>HTTP messages and the standard library\<close>

text \<open>
  A header is a map from canonical names to the values of each name.
\<close>

type_synonym Header = "(string \<times> string list) list"

definition HeaderGet :: "Header \<Rightarrow> string \<Rightarrow> string" where
  "HeaderGet h key = (case map_of h key of Some (v # vs) \<Rightarrow> v | _ \<Rightarrow> [])"

definition HeaderSet :: "Header \<Rightarrow> string \<Rightarrow> string \<Rightarrow> Header" where
  "HeaderSet h key v = AList.update key [v] h"

definition HeaderAdd :: "Header \<Rightarrow> string \<Rightarrow> string \<Rightarrow> Header" where
  "HeaderAdd h key v = AList.update key ((case map_of h key of None \<Rightarrow> [] | Some vs \<Rightarrow> vs) @ [v]) h"

text \<open>
  The inbound request: \<open>rq_Body\<close> is what \<^verbatim>\<open>io.ReadAll(r.Body)\<close> returns, \<open>None\<close> for an
  error.
\<close>

record Request =
  rq_Method :: string
  rq_Path :: string
  rq_RawQuery :: string
  rq_Header :: Header
  rq_Body :: "string option"

text \<open>The request the proxy sends upstream.\<close>

record UpstreamRequest =
  ur_Method :: string
  ur_URL :: string
  ur_Header :: Header
  ur_Body :: string

text \<open>
  The upstream's response: the status, the header, the bytes its body delivers, and
  whether the body then ends with a read error instead of the end of the stream.
\<close>

record Response =
  StatusCode :: int
  rsp_Header :: Header
  rsp_Body :: string
  rsp_BodyError :: bool

text \<open>
  The upstream answers the requests it has received so far, the last one being the
  current one; \<open>None\<close> is a transport error of \<^verbatim>\<open>client.Do\<close>. \<open>clientDo\<close> records the
  request in the list of requests sent.
\<close>

type_synonym Upstream = "UpstreamRequest list \<Rightarrow> Response option"

definition clientDo :: "Upstream \<Rightarrow> UpstreamRequest list \<Rightarrow> UpstreamRequest \<Rightarrow> Response option \<times> UpstreamRequest list" where
  "clientDo upstream sent req = (upstream (sent @ [req]), sent @ [req])"

text \<open>The response body types of the two proxies.\<close>

record Usage =
  PromptTokens :: int
  CompletionTokens :: int
  TotalTokens :: int

record Choice =
  ch_Index :: int
  ch_Message :: Message
  ch_FinishReason :: string

record ChatResponse =
  rs_ID :: string
  rs_Object :: string
  rs_Created :: int
  rs_Model :: string
  rs_Choices :: "Choice list"
  rs_Usage :: Usage

record OpenAIChoice =
  oc_Index :: int
  oc_Message :: OpenAIMessage
  oc_FinishReason :: string

record OpenAIResponse =
  ors_ID :: string
  ors_Object :: string
  ors_Created :: int
  ors_Model :: string
  ors_Choices :: "OpenAIChoice list option"
  ors_Usage :: Usage

text \<open>
  The functions of the Go standard library and of the compression packages that the
  proxies call and that are not modelled here; every theorem holds for all of them.
  \<open>Unmarshal\<close> decodes a JSON text into an \<^verbatim>\<open>interface{}\<close> (\<open>None\<close>: the text is not
  JSON), \<open>Marshal\<close> encodes a value (\<open>None\<close>: an error), the typed \<open>Unmarshal...\<close> are
  \<^verbatim>\<open>json.Unmarshal\<close> into a fresh variable of the struct named (for \<open>UnmarshalChatRequest\<close>
  into a variable holding the value given, since the DeepSeek proxy decodes the body a
  second time into the same variable), \<open>NewRequestOK\<close> tells whether
  \<^verbatim>\<open>http.NewRequest\<close> accepts a method and a URL, \<open>Decompress\<close> reads a whole body through
  the reader of a content encoding.
\<close>

record GoLib =
  ToLower :: "string \<Rightarrow> string"
  Unmarshal :: "string \<Rightarrow> json option"
  Marshal :: "json \<Rightarrow> string option"
  UnmarshalChatRequest :: "string \<Rightarrow> ChatRequest \<Rightarrow> ChatRequest option"
  UnmarshalClaudeRequest :: "string \<Rightarrow> ClaudeRequest option"
  UnmarshalChatResponse :: "string \<Rightarrow> ChatResponse option"
  UnmarshalOpenAIResponse :: "string \<Rightarrow> OpenAIResponse option"
  NewRequestOK :: "string \<Rightarrow> string \<Rightarrow> bool"
  Decompress :: "string \<Rightarrow> string \<Rightarrow> string option"

section \<open>The DeepSeek proxy: upstream dispatch with fallback\<close>

definition isModelNotFoundError :: "GoLib \<Rightarrow> int \<Rightarrow> string \<Rightarrow> bool" where
  "isModelNotFoundError lib statusCode body =
     (if statusCode = 404 then True
      else if statusCode = 400 \<or> statusCode = 422 then
        (let lower = ToLower lib body
         in Contains lower ''model'' \<and>
            (Contains lower ''not found'' \<or> Contains lower ''not exist'' \<or>
             Contains lower ''invalid model'' \<or> Contains lower ''does not exist'' \<or>
             Contains lower ''no such model''))
      else False)"

definition skipHeaders :: "string list" where
  "skipHeaders = [''Content-Length'', ''Content-Encoding'', ''Transfer-Encoding'', ''Connection'']"

definition copyHeaders :: "Header \<Rightarrow> Header \<Rightarrow> Header" where
  "copyHeaders dst src =
     fold (\<lambda>(k, vv) dst. if k \<in> set skipHeaders then dst else fold (\<lambda>v dst. HeaderAdd dst k v) vv dst)
          src dst"

text \<open>\<^verbatim>\<open>buildDeepSeekHTTPRequest\<close>; \<open>None\<close> is the error of \<^verbatim>\<open>http.NewRequest\<close>.\<close>

definition buildDeepSeekHTTPRequest ::
  "GoLib \<Rightarrow> Config \<Rightarrow> Request \<Rightarrow> string \<Rightarrow> bool \<Rightarrow> string \<Rightarrow> UpstreamRequest option" where
  "buildDeepSeekHTTPRequest lib activeConfig origReq body stream apiKey =
     (let targetURL = endpoint activeConfig @ rq_Path origReq;
          targetURL = (if rq_RawQuery origReq \<noteq> [] then targetURL @ ''?'' @ rq_RawQuery origReq
                       else targetURL)
      in if \<not> NewRequestOK lib (rq_Method origReq) targetURL then None
         else
           (let h = copyHeaders [] (rq_Header origReq);
                h = HeaderSet h ''Authorization'' (''Bearer '' @ apiKey);
                h = HeaderSet h ''Content-Type'' ''application/json'';
                h = (if stream then HeaderSet h ''Accept'' ''text/event-stream'' else h);
                acceptLanguage = HeaderGet (rq_Header origReq) ''Accept-Language'';
                h = (if acceptLanguage \<noteq> [] then HeaderSet h ''Accept-Language'' acceptLanguage else h)
            in Some \<lparr>ur_Method = rq_Method origReq, ur_URL = targetURL, ur_Header = h, ur_Body = body\<rparr>))"

text \<open>
  \<^verbatim>\<open>doDeepSeekRequestWithFallback\<close>: the response and the model used, or \<open>None\<close> for a
  non-nil error, together with the requests sent upstream so far.
\<close>

definition doDeepSeekRequestWithFallback ::
  "GoLib \<Rightarrow> Config \<Rightarrow> Upstream \<Rightarrow> UpstreamRequest list \<Rightarrow> Request \<Rightarrow> string \<Rightarrow> DeepSeekRequest \<Rightarrow> bool
     \<Rightarrow> string \<Rightarrow> (Response \<times> string) option \<times> UpstreamRequest list" where
  "doDeepSeekRequestWithFallback lib activeConfig upstream sent origReq body dsReq stream apiKey =
     (case buildDeepSeekHTTPRequest lib activeConfig origReq body stream apiKey of
        None \<Rightarrow> (None, sent)
      | Some proxyReq \<Rightarrow>
          (let (first, sent1) = clientDo upstream sent proxyReq;
               fallback =
                 (case Marshal lib (encodeDeepSeekRequest (dsReq\<lparr>dr_Model := deepseekReasonerModel\<rparr>)) of
                    None \<Rightarrow> (None, sent1)
                  | Some fallbackBody \<Rightarrow>
                      (case buildDeepSeekHTTPRequest lib activeConfig origReq fallbackBody stream apiKey of
                         None \<Rightarrow> (None, sent1)
                       | Some fallbackReq \<Rightarrow>
                           (let (second, sent2) = clientDo upstream sent1 fallbackReq
                            in case second of
                                 None \<Rightarrow> (None, sent2)
                               | Some resp \<Rightarrow> (Some (resp, deepseekReasonerModel), sent2))))
           in case first of
                None \<Rightarrow> fallback
              | Some resp \<Rightarrow>
                  if StatusCode resp < 400 then (Some (resp, dr_Model dsReq), sent1)
                  else if rsp_BodyError resp then (None, sent1)
                  else if \<not> isModelNotFoundError lib (StatusCode resp) (rsp_Body resp)
                  then (Some (resp, dr_Model dsReq), sent1)
                  else fallback))"

section \<open>The response writer\<close>

text \<open>
  The \<^verbatim>\<open>http.ResponseWriter\<close>, as the handler drives it: the header map, the status
  given to the client (\<open>None\<close> until the header is written), the bytes passed to
  \<^verbatim>\<open>Write\<close>, and whether the handler has panicked, which ends the exchange.
  \<^verbatim>\<open>Flush\<close> changes none of these and is left out.
\<close>

record ResponseWriter =
  w_Header :: Header
  w_Status :: "int option"
  w_Body :: string
  w_Panicked :: bool

definition newResponseWriter :: ResponseWriter where
  "newResponseWriter = \<lparr>w_Header = [], w_Status = None, w_Body = [], w_Panicked = False\<rparr>"

text \<open>\<^verbatim>\<open>WriteHeader\<close> panics on a code outside 100..999; a second call changes nothing.\<close>

definition WriteHeader :: "ResponseWriter \<Rightarrow> int \<Rightarrow> ResponseWriter" where
  "WriteHeader w code =
     (if w_Panicked w \<or> w_Status w \<noteq> None then w
      else if code < 100 \<or> code > 999 then w\<lparr>w_Panicked := True\<rparr>
      else w\<lparr>w_Status := Some code\<rparr>)"

definition Write :: "ResponseWriter \<Rightarrow> string \<Rightarrow> ResponseWriter" where
  "Write w b =
     (if w_Panicked w then w
      else (let w = (if w_Status w = None then w\<lparr>w_Status := Some 200\<rparr> else w)
            in w\<lparr>w_Body := w_Body w @ b\<rparr>))"

definition SetHeader :: "ResponseWriter \<Rightarrow> string \<Rightarrow> string \<Rightarrow> ResponseWriter" where
  "SetHeader w key v = w\<lparr>w_Header := HeaderSet (w_Header w) key v\<rparr>"

text \<open>\<^verbatim>\<open>http.Error\<close>: a plain-text reply, the message followed by a newline.\<close>

definition Error :: "ResponseWriter \<Rightarrow> string \<Rightarrow> int \<Rightarrow> ResponseWriter" where
  "Error w msg code =
     (let w = w\<lparr>w_Header := AList.delete ''Content-Length'' (w_Header w)\<rparr>;
          w = SetHeader w ''Content-Type'' ''text/plain; charset=utf-8'';
          w = SetHeader w ''X-Content-Type-Options'' ''nosniff'';
          w = WriteHeader w code
      in Write w (msg @ newline))"

definition enableCors :: "ResponseWriter \<Rightarrow> ResponseWriter" where
  "enableCors w =
     (let w = SetHeader w ''Access-Control-Allow-Origin'' ''*'';
          w = SetHeader w ''Access-Control-Allow-Methods'' ''POST, GET, OPTIONS'';
          w = SetHeader w ''Access-Control-Allow-Headers'' ''Origin, Content-Type, Accept, Authorization'';
          w = SetHeader w ''Access-Control-Expose-Headers'' ''Content-Length''
      in SetHeader w ''Access-Control-Allow-Credentials'' ''true'')"

section \<open>The stream relay\<close>

text \<open>
  \<^verbatim>\<open>reader.ReadBytes('\n')\<close> on the bytes still unread: the next line with its newline
  and the rest, or \<open>None\<close> when no newline is left. Then the call returns the unread
  bytes with an error, the end of the stream or a read error, and the relay stops in
  both cases without looking at those bytes.
\<close>

fun ReadBytes :: "string \<Rightarrow> (string \<times> string) option" where
  "ReadBytes [] = None"
| "ReadBytes (c # cs) =
     (if c = CHR 0x0A then Some ([c], cs)
      else (case ReadBytes cs of None \<Rightarrow> None | Some (line, rest) \<Rightarrow> Some (c # line, rest)))"

lemma ReadBytes_length: "ReadBytes buf = Some (line, rest) \<Longrightarrow> length rest < length buf"
  by (induction buf arbitrary: line rest) (auto split: if_splits option.splits)

text \<open>How the loop of the relay ended.\<close>

datatype RelayEnd = EndOfInput | Done | Panic

text \<open>
  What the relay does with one line that is not blank: the bytes it writes, and
  whether it goes on (\<open>None\<close>) or stops. Assigning to the nil map that the payload
  \<^verbatim>\<open>null\<close> decodes to panics.
\<close>

definition relayLine :: "GoLib \<Rightarrow> string \<Rightarrow> string \<Rightarrow> string \<times> RelayEnd option" where
  "relayLine lib originalModel line =
     (if HasPrefix line ''data: '' then
        (let data = TrimSpace (TrimPrefix line ''data: '')
         in if data = ''[DONE]'' then (''data: [DONE]'' @ newline @ newline, Some Done)
            else
              (case Unmarshal lib data of
                 None \<Rightarrow> (line, None)
               | Some j \<Rightarrow>
                   (case unmarshalMap j of
                      None \<Rightarrow> (line, None)
                    | Some None \<Rightarrow> ([], Some Panic)
                    | Some (Some chunk) \<Rightarrow>
                        (case Marshal lib (JObject (AList.update ''model'' (JString originalModel) chunk)) of
                           Some modifiedData \<Rightarrow> (''data: '' @ modifiedData @ newline @ newline, None)
                         | None \<Rightarrow> (line, None)))))
      else (line, None))"

text \<open>The loop: the bytes written, in order, and how the loop ended.\<close>

function relayLoop :: "GoLib \<Rightarrow> string \<Rightarrow> string \<Rightarrow> string \<times> RelayEnd" where
  "relayLoop lib originalModel buf =
     (case ReadBytes buf of
        None \<Rightarrow> ([], EndOfInput)
      | Some (line, rest) \<Rightarrow>
          if length (TrimSpace line) = 0 then
            (let (out, e) = relayLoop lib originalModel rest in (line @ out, e))
          else
            (case relayLine lib originalModel line of
               (written, Some e) \<Rightarrow> (written, e)
             | (written, None) \<Rightarrow>
                 (let (out, e) = relayLoop lib originalModel rest in (written @ out, e))))"
  by pat_completeness auto
termination
  by (relation "measure (\<lambda>(lib, originalModel, buf). length buf)") (auto dest: ReadBytes_length)

declare relayLoop.simps [simp del]

definition handleStreamingResponse :: "GoLib \<Rightarrow> ResponseWriter \<Rightarrow> Response \<Rightarrow> string \<Rightarrow> ResponseWriter" where
  "handleStreamingResponse lib w resp originalModel =
     (let w = SetHeader w ''Content-Type'' ''text/event-stream'';
          w = SetHeader w ''Cache-Control'' ''no-cache'';
          w = SetHeader w ''Connection'' ''keep-alive'';
          w = WriteHeader w (StatusCode resp);
          (out, e) = relayLoop lib originalModel (rsp_Body resp);
          w = Write w out
      in if e = Panic then w\<lparr>w_Panicked := True\<rparr> else w)"

section \<open>Buffered responses\<close>

text \<open>\<^verbatim>\<open>readResponse\<close>: the whole body, through the reader of its content encoding.\<close>

definition readResponse :: "GoLib \<Rightarrow> Response \<Rightarrow> string option" where
  "readResponse lib resp =
     (let encoding = HeaderGet (rsp_Header resp) ''Content-Encoding''
      in if rsp_BodyError resp then None
         else if encoding = ''gzip'' \<or> encoding = ''br'' \<or> encoding = ''deflate''
         then Decompress lib encoding (rsp_Body resp)
         else Some (rsp_Body resp))"

definition encodeUsage :: "Usage \<Rightarrow> json" where
  "encodeUsage u =
     JObject [(''prompt_tokens'', JNumber (of_int (PromptTokens u))),
              (''completion_tokens'', JNumber (of_int (CompletionTokens u))),
              (''total_tokens'', JNumber (of_int (TotalTokens u)))]"

definition encodeChoice :: "Choice \<Rightarrow> json" where
  "encodeChoice c =
     JObject [(''index'', JNumber (of_int (ch_Index c))), (''message'', encodeMessage (ch_Message c)),
              (''finish_reason'', JString (ch_FinishReason c))]"

definition encodeChatResponse :: "ChatResponse \<Rightarrow> json" where
  "encodeChatResponse r =
     JObject [(''id'', JString (rs_ID r)), (''object'', JString (rs_Object r)),
              (''created'', JNumber (of_int (rs_Created r))), (''model'', JString (rs_Model r)),
              (''choices'', JArray (map encodeChoice (rs_Choices r))),
              (''usage'', encodeUsage (rs_Usage r))]"

definition encodeOpenAIChoice :: "OpenAIChoice \<Rightarrow> json" where
  "encodeOpenAIChoice c =
     JObject [(''index'', JNumber (of_int (oc_Index c))), (''message'', encodeOpenAIMessage (oc_Message c)),
              (''finish_reason'', JString (oc_FinishReason c))]"

definition encodeOpenAIResponse :: "OpenAIResponse \<Rightarrow> json" where
  "encodeOpenAIResponse r =
     JObject [(''id'', JString (ors_ID r)), (''object'', JString (ors_Object r)),
              (''created'', JNumber (of_int (ors_Created r))), (''model'', JString (ors_Model r)),
              (''choices'', (case ors_Choices r of None \<Rightarrow> JNull
                             | Some cs \<Rightarrow> JArray (map encodeOpenAIChoice cs))),
              (''usage'', encodeUsage (ors_Usage r))]"

text \<open>
  The loop over the tool calls of one choice of the DeepSeek response (proxy.go, lines
  659 to 668). The message of the output choice is a copy of the input message, so the
  list the loop appends to starts as the input's tool calls.
\<close>

definition toolCallStep :: "ToolCall \<Rightarrow> ToolCall list \<Rightarrow> ToolCall list" where
  "toolCallStep tc toolCalls = (if tc_Function_Name tc = [] then toolCalls else toolCalls @ [tc])"

definition convertChoice :: "Choice \<Rightarrow> Choice" where
  "convertChoice choice =
     (let out = \<lparr>ch_Index = ch_Index choice, ch_Message = ch_Message choice,
                 ch_FinishReason = ch_FinishReason choice\<rparr>
      in if length (msg_ToolCalls (ch_Message choice)) > 0
         then out\<lparr>ch_Message := (ch_Message out)\<lparr>msg_ToolCalls :=
                 fold toolCallStep (msg_ToolCalls (ch_Message choice)) (msg_ToolCalls (ch_Message out))\<rparr>\<rparr>
         else out)"

text \<open>The response struct \<^verbatim>\<open>openAIResp\<close> that the DeepSeek proxy builds (lines 615 to 670).\<close>

definition toOpenAIResp :: "string \<Rightarrow> ChatResponse \<Rightarrow> ChatResponse" where
  "toOpenAIResp originalModel deepseekResp =
     \<lparr>rs_ID = rs_ID deepseekResp, rs_Object = ''chat.completion'', rs_Created = rs_Created deepseekResp,
      rs_Model = originalModel, rs_Choices = map convertChoice (rs_Choices deepseekResp),
      rs_Usage = rs_Usage deepseekResp\<rparr>"

text \<open>\<^verbatim>\<open>handleRegularResponse\<close> of the DeepSeek proxy.\<close>

definition handleRegularResponse :: "GoLib \<Rightarrow> ResponseWriter \<Rightarrow> Response \<Rightarrow> string \<Rightarrow> ResponseWriter" where
  "handleRegularResponse lib w resp originalModel =
     (case readResponse lib resp of
        None \<Rightarrow> Error w ''Error reading response from upstream'' 500
      | Some body \<Rightarrow>
          (case UnmarshalChatResponse lib body of
             None \<Rightarrow> WriteHeader w 500
           | Some deepseekResp \<Rightarrow>
               (case Marshal lib (encodeChatResponse (toOpenAIResp originalModel deepseekResp)) of
                  None \<Rightarrow> WriteHeader w 500
                | Some modifiedBody \<Rightarrow>
                    Write (WriteHeader (SetHeader w ''Content-Type'' ''application/json'') (StatusCode resp))
                          modifiedBody)))"

text \<open>\<^verbatim>\<open>handleRegularResponse\<close> of the Claude proxy.\<close>

definition handleRegularResponseClaude :: "GoLib \<Rightarrow> ResponseWriter \<Rightarrow> Response \<Rightarrow> string \<Rightarrow> ResponseWriter" where
  "handleRegularResponseClaude lib w resp originalModel =
     (case readResponse lib resp of
        None \<Rightarrow> Error w ''Error reading response from upstream'' 500
      | Some body \<Rightarrow>
          (case UnmarshalOpenAIResponse lib body of
             None \<Rightarrow> WriteHeader w 500
           | Some openAIResp \<Rightarrow>
               (case Marshal lib (encodeOpenAIResponse (openAIResp\<lparr>ors_Model := originalModel\<rparr>)) of
                  None \<Rightarrow> WriteHeader w 500
                | Some modifiedBody \<Rightarrow>
                    Write (WriteHeader (SetHeader w ''Content-Type'' ''application/json'') (StatusCode resp))
                          modifiedBody)))"

text \<open>
  \<^verbatim>\<open>handleModelsRequest\<close> of each proxy; \<open>now\<close> is \<^verbatim>\<open>time.Now().Unix()\<close>. The encoder
  writes the text and a newline, and nothing on an error.
\<close>

definition encodeModel :: "string \<Rightarrow> int \<Rightarrow> string \<Rightarrow> json" where
  "encodeModel ident now owner =
     JObject [(''id'', JString ident), (''object'', JString ''model''), (''created'', JNumber (of_int now)),
              (''owned_by'', JString owner)]"

definition modelsResponse :: "int \<Rightarrow> json" where
  "modelsResponse now =
     JObject [(''object'', JString ''list''),
              (''data'', JArray [encodeModel deepseekChatModel now ''deepseek'',
                                 encodeModel deepseekReasonerModel now ''deepseek'',
                                 encodeModel deepseekCoderModel now ''deepseek''])]"

definition modelsResponseClaude :: "int \<Rightarrow> json" where
  "modelsResponseClaude now =
     JObject [(''data'', JArray [JObject [(''created'', JNumber (of_int now)), (''id'', JString claudeSonnetModel),
                                          (''object'', JString ''model''), (''owned_by'', JString ''anthropic'')]]),
              (''object'', JString ''list'')]"

definition handleModelsRequest :: "GoLib \<Rightarrow> int \<Rightarrow> ResponseWriter \<Rightarrow> ResponseWriter" where
  "handleModelsRequest lib now w =
     (let w = SetHeader w ''Content-Type'' ''application/json''
      in case Marshal lib (modelsResponse now) of None \<Rightarrow> w | Some b \<Rightarrow> Write w (b @ newline))"

definition handleModelsRequestClaude :: "GoLib \<Rightarrow> int \<Rightarrow> ResponseWriter \<Rightarrow> ResponseWriter" where
  "handleModelsRequestClaude lib now w =
     (let w = SetHeader w ''Content-Type'' ''application/json''
      in case Marshal lib (modelsResponseClaude now) of None \<Rightarrow> w | Some b \<Rightarrow> Write w (b @ newline))"

section \<open>The handlers\<close>

text \<open>
  Forwarding an upstream error response: every header of the response replaces the
  header of that name.
\<close>

definition forwardHeaders :: "ResponseWriter \<Rightarrow> Header \<Rightarrow> ResponseWriter" where
  "forwardHeaders w h = w\<lparr>w_Header := fold (\<lambda>(k, v) hdr. AList.update k v hdr) h (w_Header w)\<rparr>"

definition zeroChatRequest :: ChatRequest where
  "zeroChatRequest =
     \<lparr>cr_Model = [], cr_Messages = [], cr_Stream = False, cr_Functions = [], cr_Tools = [],
      cr_ToolChoice = JNull, cr_Temperature = None, cr_MaxTokens = None\<rparr>"

text \<open>
  \<^verbatim>\<open>proxyHandler\<close> of the DeepSeek proxy, for the server key \<^verbatim>\<open>deepseekAPIKey\<close> and the
  configuration \<^verbatim>\<open>activeConfig\<close>: the state of the response writer when the handler
  returns, and the requests it has sent upstream.
\<close>

definition proxyHandler ::
  "GoLib \<Rightarrow> string \<Rightarrow> Config \<Rightarrow> int \<Rightarrow> Upstream \<Rightarrow> Request \<Rightarrow> ResponseWriter \<times> UpstreamRequest list" where
  "proxyHandler lib deepseekAPIKey activeConfig now upstream r =
     (if rq_Method r = ''OPTIONS'' then (enableCors newResponseWriter, [])
      else
        (let w = enableCors newResponseWriter;
             authHeader = HeaderGet (rq_Header r) ''Authorization'';
             userAPIKey = TrimPrefix authHeader ''Bearer ''
         in if (userAPIKey = [] \<or> userAPIKey = authHeader) \<and> deepseekAPIKey = [] then
              (Error w ''API key required: please provide Authorization header or configure DEEPSEEK_API_KEY environment variable'' 401, [])
            else
              (let userAPIKey = (if userAPIKey = [] \<or> userAPIKey = authHeader then deepseekAPIKey
                                 else userAPIKey)
               in if rq_Path r = ''/v1/models'' \<and> rq_Method r = ''GET'' then
                    (handleModelsRequest lib now w, [])
                  else
                    (case rq_Body r of
                       None \<Rightarrow> (Error w ''Error reading request'' 400, [])
                     | Some body \<Rightarrow>
                         (case UnmarshalChatRequest lib body zeroChatRequest of
                            None \<Rightarrow> (Error w ''Invalid JSON'' 400, [])
                          | Some chatReq1 \<Rightarrow>
                              if rq_Path r = ''/v1/models'' \<or> rq_Path r = ''/models'' then
                                (handleModelsRequest lib now w, [])
                              else if (if \<not> HasPrefix (rq_Path r) ''/v1/'' then ''/v1'' @ rq_Path r
                                       else rq_Path r) \<noteq> ''/v1/chat/completions'' then
                                (Error w ''Not found'' 404, [])
                              else
                                (case UnmarshalChatRequest lib body chatReq1 of
                                   None \<Rightarrow> (Error w ''Error parsing request'' 400, [])
                                 | Some chatReq \<Rightarrow>
                                     (let requestModel = requestModelOf chatReq;
                                          deepseekReq = toDeepSeekRequest chatReq
                                      in case Marshal lib (encodeDeepSeekRequest deepseekReq) of
                                           None \<Rightarrow> (Error w ''Error creating modified request'' 500, [])
                                         | Some modifiedBody \<Rightarrow>
                                             (case doDeepSeekRequestWithFallback lib activeConfig upstream []
                                                     r modifiedBody deepseekReq (cr_Stream chatReq) userAPIKey of
                                                (None, sent) \<Rightarrow> (Error w ''Error forwarding request'' 502, sent)
                                              | (Some (resp, usedModel), sent) \<Rightarrow>
                                                  (let originalModel = (if usedModel \<noteq> requestModel
                                                                        then usedModel else requestModel)
                                                   in if StatusCode resp \<ge> 400 then
                                                        (if rsp_BodyError resp
                                                         then (Error w ''Error reading response'' 500, sent)
                                                         else (Write (WriteHeader
                                                                 (SetHeader (forwardHeaders w (rsp_Header resp))
                                                                    ''Content-Type'' ''application/json'')
                                                                 (StatusCode resp)) (rsp_Body resp), sent))
                                                      else if cr_Stream chatReq then
                                                        (handleStreamingResponse lib w resp originalModel, sent)
                                                      else
                                                        (handleRegularResponse lib w resp originalModel, sent))))))))))"

text \<open>
  \<^verbatim>\<open>proxyHandler\<close> of the Claude proxy, for the server key \<^verbatim>\<open>poeAPIKey\<close>.
\<close>

definition proxyHandlerClaude ::
  "GoLib \<Rightarrow> string \<Rightarrow> int \<Rightarrow> Upstream \<Rightarrow> Request \<Rightarrow> ResponseWriter \<times> UpstreamRequest list" where
  "proxyHandlerClaude lib poeAPIKey now upstream r =
     (if rq_Method r = ''OPTIONS'' then (enableCors newResponseWriter, [])
      else
        (let w = enableCors newResponseWriter;
             authHeader = HeaderGet (rq_Header r) ''Authorization''
         in if \<not> HasPrefix authHeader ''Bearer '' then
              (Error w ''Missing or invalid Authorization header'' 401, [])
            else
              (let userAPIKey = TrimPrefix authHeader ''Bearer '';
                   activeAPIKey = (if userAPIKey = [] then poeAPIKey else userAPIKey)
               in if activeAPIKey = [] then (Error w ''No API key available'' 401, [])
                  else if rq_Path r = ''/v1/models'' \<and> rq_Method r = ''GET'' then
                    (handleModelsRequestClaude lib now w, [])
                  else
                    (case rq_Body r of
                       None \<Rightarrow> (Error w ''Error reading request'' 400, [])
                     | Some body \<Rightarrow>
                         (case UnmarshalClaudeRequest lib body of
                            None \<Rightarrow> (Error w ''Invalid JSON'' 400, [])
                          | Some claudeReq \<Rightarrow>
                              (case Marshal lib (encodeOpenAIRequest
                                      (convertClaudeToOpenAI (Marshal lib) claudeReq)) of
                                 None \<Rightarrow> (Error w ''Error creating modified request'' 500, [])
                               | Some modifiedBody \<Rightarrow>
                                   (let targetURL = openAIEndpoint @ ''/v1/chat/completions''
                                    in if \<not> NewRequestOK lib ''POST'' targetURL then
                                         (Error w ''Error creating proxy request'' 500, [])
                                       else
                                         (let h = HeaderSet [] ''Authorization'' (''Bearer '' @ activeAPIKey);
                                              h = HeaderSet h ''Content-Type'' ''application/json'';
                                              h = (if clr_Stream claudeReq
                                                   then HeaderSet h ''Accept'' ''text/event-stream'' else h);
                                              proxyReq = \<lparr>ur_Method = ''POST'', ur_URL = targetURL,
                                                          ur_Header = h, ur_Body = modifiedBody\<rparr>
                                          in case clientDo upstream [] proxyReq of
                                               (None, sent) \<Rightarrow> (Error w ''Error forwarding request'' 502, sent)
                                             | (Some resp, sent) \<Rightarrow>
                                                 if StatusCode resp \<ge> 400 then
                                                   (if rsp_BodyError resp
                                                    then (Error w ''Error reading response'' 500, sent)
                                                    else (Write (WriteHeader (forwardHeaders w (rsp_Header resp))
                                                                   (StatusCode resp)) (rsp_Body resp), sent))
                                                 else if clr_Stream claudeReq then
                                                   (handleStreamingResponse lib w resp (clr_Model claudeReq), sent)
                                                 else
                                                   (handleRegularResponseClaude lib w resp (clr_Model claudeReq),
                                                    sent)))))))))"

section \<open>An instance of the library, for the examples\<close>

text \<open>
  The theorems below hold for every library. Where one is applied to a concrete input,
  the library is this one: it lowers ASCII letters, accepts every request, knows no
  compression, and encodes and decodes exactly the texts listed.
\<close>

definition exampleValues :: "(string \<times> json) list" where
  \<open>exampleValues =
     [(''{"id":"1","model":"x"}'', JObject [(''id'', JString ''1''), (''model'', JString ''x'')]),
      (''{"id":"1","model":"deepseek-chat"}'',
         JObject [(''id'', JString ''1''), (''model'', JString ''deepseek-chat'')]),
      (''null'', JNull),
      (''{"model":"deepseek-reasoner","messages":[],"stream":false}'',
         JObject [(''model'', JString ''deepseek-reasoner''), (''messages'', JArray []),
                  (''stream'', JBool False)]),
      (''{"model":"claude-sonnet-4.5","messages":[{"role":"user","content":"hi"}],"stream":false}'',
         JObject [(''model'', JString ''claude-sonnet-4.5''),
                  (''messages'', JArray [JObject [(''role'', JString ''user''), (''content'', JString ''hi'')]]),
                  (''stream'', JBool False)]),
      (''{"id":"r1","object":"chat.completion","created":1,"model":"","choices":[],"usage":{"prompt_tokens":1,"completion_tokens":1,"total_tokens":2}}'',
         JObject [(''id'', JString ''r1''), (''object'', JString ''chat.completion''),
                  (''created'', JNumber 1), (''model'', JString []), (''choices'', JArray []),
                  (''usage'', JObject [(''prompt_tokens'', JNumber 1), (''completion_tokens'', JNumber 1),
                                       (''total_tokens'', JNumber 2)])]),
      (''{"model":"claude-sonnet-4.5","messages":[{"role":"user","content":"hi"}],"stream":true}'',
         JObject [(''model'', JString ''claude-sonnet-4.5''),
                  (''messages'', JArray [JObject [(''role'', JString ''user''), (''content'', JString ''hi'')]]),
                  (''stream'', JBool True)]),
      (''{"id":"1","model":""}'', JObject [(''id'', JString ''1''), (''model'', JString [])])]\<close>

definition exampleClaudeRequests :: "(string \<times> ClaudeRequest) list" where
  \<open>exampleClaudeRequests =
     [(''{"model":"","messages":[{"role":"user","content":"hi"}],"stream":false}'',
       \<lparr>clr_Model = [],
        clr_Messages = [\<lparr>cm_Role = ''user'', cm_Content = Some (JString ''hi''), cm_ToolCalls = [],
                          cm_ToolCallID = [], cm_Name = []\<rparr>],
        clr_MaxTokens = None, clr_System = [], clr_Tools = [], clr_ToolChoice = JNull,
        clr_Temperature = None, clr_Stream = False, clr_StreamOptions = None, clr_Metadata = None\<rparr>),
      (''{"model":"","messages":[{"role":"user","content":"hi"}],"stream":true}'',
       \<lparr>clr_Model = [],
        clr_Messages = [\<lparr>cm_Role = ''user'', cm_Content = Some (JString ''hi''), cm_ToolCalls = [],
                          cm_ToolCallID = [], cm_Name = []\<rparr>],
        clr_MaxTokens = None, clr_System = [], clr_Tools = [], clr_ToolChoice = JNull,
        clr_Temperature = None, clr_Stream = True, clr_StreamOptions = None, clr_Metadata = None\<rparr>)]\<close>

definition exampleOpenAIResponses :: "(string \<times> OpenAIResponse) list" where
  \<open>exampleOpenAIResponses =
     [(''{"id":"r1","object":"chat.completion","created":1,"model":"claude-sonnet-4.5","choices":[],"usage":{"prompt_tokens":1,"completion_tokens":1,"total_tokens":2}}'',
       \<lparr>ors_ID = ''r1'', ors_Object = ''chat.completion'', ors_Created = 1,
        ors_Model = ''claude-sonnet-4.5'', ors_Choices = Some [],
        ors_Usage = \<lparr>PromptTokens = 1, CompletionTokens = 1, TotalTokens = 2\<rparr>\<rparr>)]\<close>

definition exampleLib :: GoLib where
  "exampleLib =
     \<lparr>ToLower = map lowerASCII,
      Unmarshal = map_of exampleValues,
      Marshal = map_of (map (\<lambda>(text, v). (v, text)) exampleValues),
      UnmarshalChatRequest = (\<lambda>body old. None),
      UnmarshalClaudeRequest = map_of exampleClaudeRequests,
      UnmarshalChatResponse = (\<lambda>body. None),
      UnmarshalOpenAIResponse = map_of exampleOpenAIResponses,
      NewRequestOK = (\<lambda>method url. True),
      Decompress = (\<lambda>encoding body. None)\<rparr>"

text \<open>The requests, responses and upstreams of the examples.\<close>

definition exampleConfig :: Config where
  "exampleConfig = \<lparr>endpoint = deepseekEndpoint, model = deepseekChatModel\<rparr>"

definition exampleRequest :: Request where
  "exampleRequest =
     \<lparr>rq_Method = ''POST'', rq_Path = ''/v1/chat/completions'', rq_RawQuery = [],
      rq_Header = [(''Authorization'', [''Bearer k''])], rq_Body = Some []\<rparr>"

definition exampleDeepSeekRequest :: DeepSeekRequest where
  "exampleDeepSeekRequest =
     \<lparr>dr_Model = ''deepseek-chat'', dr_Messages = [], dr_Stream = False, dr_Temperature = 0,
      dr_MaxTokens = 0, dr_Tools = [], dr_ToolChoice = []\<rparr>"

definition exampleProxyRequest :: "string \<Rightarrow> UpstreamRequest" where
  "exampleProxyRequest body =
     \<lparr>ur_Method = ''POST'', ur_URL = ''https://api.deepseek.com/v1/chat/completions'',
      ur_Header = [(''Authorization'', [''Bearer k'']), (''Content-Type'', [''application/json''])],
      ur_Body = body\<rparr>"

definition exampleResponse :: "int \<Rightarrow> string \<Rightarrow> bool \<Rightarrow> Response" where
  "exampleResponse status body bodyError =
     \<lparr>StatusCode = status, rsp_Header = [], rsp_Body = body, rsp_BodyError = bodyError\<rparr>"

text \<open>An upstream that answers the first request with one response and every later one
  with another.\<close>

definition exampleUpstream :: "Response \<Rightarrow> Response \<Rightarrow> Upstream" where
  "exampleUpstream first later sent = (if length sent = 1 then Some first else Some later)"

section \<open>Notions used in the statements\<close>

text \<open>A structured tool-choice selector of type "function": a JSON object whose
  \<^verbatim>\<open>type\<close> member is the string \<^verbatim>\<open>function\<close>.\<close>

definition isFunctionSelector :: "json \<Rightarrow> bool" where
  "isFunctionSelector choice =
     (case choice of JObject kvs \<Rightarrow> map_of (rev kvs) ''type'' = Some (JString ''function'') | _ \<Rightarrow> False)"

text \<open>A decoded content part of type \<^verbatim>\<open>tool_result\<close>.\<close>

definition isToolResult :: "(string \<times> json) list option \<Rightarrow> bool" where
  "isToolResult part = (mapIndex part ''type'' = JString ''tool_result'')"

text \<open>The \<^verbatim>\<open>tool_result\<close> parts the Claude translator finds in a message: those of a
  message of role \<^verbatim>\<open>user\<close> whose content is an array of objects.\<close>

definition toolResultParts :: "ClaudeMessage \<Rightarrow> (string \<times> json) list option list" where
  "toolResultParts msg =
     (if cm_Role msg = ''user'' then
        (case cm_Content msg of None \<Rightarrow> []
         | Some c \<Rightarrow> (case unmarshalMaps c of None \<Rightarrow> [] | Some parts \<Rightarrow> filter isToolResult parts))
      else [])"

text \<open>The form in which a regular message is emitted: an assistant message with tool
  calls and no content has its content set to nil.\<close>

definition emittedForm :: "OpenAIMessage \<Rightarrow> OpenAIMessage" where
  "emittedForm m =
     (if om_Role m = ''assistant'' \<and> hasToolCalls m \<and> \<not> hasContent m then m\<lparr>om_Content := JNull\<rparr> else m)"

text \<open>A text object of a tool result's nested content.\<close>

definition textObject :: "string \<Rightarrow> json" where
  "textObject t = JObject [(''type'', JString ''text''), (''text'', JString t)]"

text \<open>The phrases that mark an unknown model in the body of a 400 or 422 response.\<close>

definition notFoundPhrases :: "string list" where
  "notFoundPhrases = [''not found'', ''not exist'', ''invalid model'', ''does not exist'', ''no such model'']"

text \<open>A body that, in lower case, contains \<^verbatim>\<open>model\<close> together with one of the phrases.\<close>

definition modelNotFoundBody :: "GoLib \<Rightarrow> string \<Rightarrow> bool" where
  "modelNotFoundBody lib body =
     (Contains (ToLower lib body) ''model'' \<and>
      list_ex (\<lambda>phrase. Contains (ToLower lib body) phrase) notFoundPhrases)"

text \<open>
  The outcomes of the first attempt that lead to the fallback: a transport error, or a
  response whose body was read and whose status is 404, or 400 or 422 with a body that
  reports an unknown model.
\<close>

definition triggersFallback :: "GoLib \<Rightarrow> Response option \<Rightarrow> bool" where
  "triggersFallback lib first =
     (case first of
        None \<Rightarrow> True
      | Some resp \<Rightarrow>
          \<not> rsp_BodyError resp \<and>
          (StatusCode resp = 404 \<or>
           ((StatusCode resp = 400 \<or> StatusCode resp = 422) \<and> modelNotFoundBody lib (rsp_Body resp))))"

text \<open>A payload that \<^verbatim>\<open>json.Unmarshal\<close> decodes into the relay's map without error.\<close>

definition decodes :: "GoLib \<Rightarrow> string \<Rightarrow> bool" where
  "decodes lib data = (case Unmarshal lib data of None \<Rightarrow> False | Some j \<Rightarrow> unmarshalMap j \<noteq> None)"

text \<open>An Authorization header that carries a Bearer token: the prefix \<^verbatim>\<open>Bearer \<close> followed
  by at least one byte.\<close>

definition hasBearerToken :: "string \<Rightarrow> bool" where
  "hasBearerToken authHeader = (HasPrefix authHeader ''Bearer '' \<and> length authHeader > 7)"

section \<open>Properties of the request translation\<close>

subsection \<open>Auxiliary facts\<close>

lemma map_of_storeMembers:
  "map_of (storeMembers kvs m) k = (case map_of (rev kvs) k of Some v \<Rightarrow> Some v | None \<Rightarrow> map_of m k)"
  unfolding storeMembers_def
  by (induction kvs arbitrary: m) (auto simp: update_conv' map_add_def split: option.splits)

lemma mapIndex_storeMembers:
  "mapIndex (Some (storeMembers kvs [])) k = (case map_of (rev kvs) k of Some v \<Rightarrow> v | None \<Rightarrow> JNull)"
  by (simp add: mapIndex_def map_of_storeMembers split: option.splits)

lemma convertToolChoice_cases:
  "convertToolChoice choice =
     (if choice = JString ''auto'' then ''auto''
      else if choice = JString ''none'' then ''none''
      else if isFunctionSelector choice then ''auto'' else [])"
  by (cases choice) (auto simp: isFunctionSelector_def mapIndex_storeMembers split: option.splits)

lemma systemMessages_Messages [simp]:
  "systemMessages (claudeReq\<lparr>clr_Messages := msgs\<rparr>) = systemMessages claudeReq"
  by (simp add: systemMessages_def)

lemma fold_toolResultStep:
  "fold toolResultStep parts (b, acc) =
     (b \<or> filter isToolResult parts \<noteq> [], acc @ map toolResultMessage (filter isToolResult parts))"
  by (induction parts arbitrary: b acc) (auto simp: toolResultStep_def isToolResult_def)

lemma convertClaudeMessage_eq:
  "convertClaudeMessage marshal msg acc =
     acc @ (if toolResultParts msg \<noteq> [] then map toolResultMessage (toolResultParts msg)
            else if hasContent (regularMessage marshal msg) \<or> hasToolCalls (regularMessage marshal msg)
            then [emittedForm (regularMessage marshal msg)] else [])"
  by (auto simp: convertClaudeMessage_def toolResultParts_def emittedForm_def fold_toolResultStep Let_def
           split: option.splits)

lemma fold_convertClaudeMessage:
  "fold (convertClaudeMessage marshal) msgs acc =
     acc @ concat (map (\<lambda>msg. convertClaudeMessage marshal msg []) msgs)"
proof (induction msgs arbitrary: acc)
  case Nil
  then show ?case by simp
next
  case (Cons msg msgs)
  have "convertClaudeMessage marshal msg acc = acc @ convertClaudeMessage marshal msg []"
    by (simp add: convertClaudeMessage_eq)
  then show ?case by (simp add: Cons.IH)
qed

lemma resultText_textObject: "concat (map (resultText \<circ> textObject) ts) = ts"
  by (induction ts) (simp_all add: resultText_def textObject_def storeMembers_def mapIndex_def)

lemma jsonMember_content:
  "jsonMember (encodeOpenAIMessage m) ''content'' = (if om_Content m = JNull then None else Some (om_Content m))"
  by (simp add: jsonMember_def encodeOpenAIMessage_def omitEmptyToolCalls_def omitEmptyString_def)

subsection \<open>Tool choice\<close>

text \<open>
  C7 (as amended). In the DeepSeek proxy \<^verbatim>\<open>convertToolChoice\<close> returns \<^verbatim>\<open>auto\<close> or
  \<^verbatim>\<open>none\<close> for that literal string, \<^verbatim>\<open>auto\<close> for an object whose \<^verbatim>\<open>type\<close> member is the
  string \<^verbatim>\<open>function\<close>, and the empty string for every other value, \<^verbatim>\<open>null\<close> included.
  The proxy applies it only to a request that declares tools or functions and leaves
  the field empty otherwise; an empty field is left out of the serialized request.
  The Claude proxy forwards the caller's \<^verbatim>\<open>tool_choice\<close> unchanged, and leaves it out
  only when it is \<^verbatim>\<open>null\<close> or missing.
\<close>

theorem toolChoice_translation:
  "convertToolChoice choice =
     (if choice = JString ''auto'' then ''auto''
      else if choice = JString ''none'' then ''none''
      else if isFunctionSelector choice then ''auto'' else [])
   \<and> dr_ToolChoice (toDeepSeekRequest chatReq) =
     (if cr_Tools chatReq = [] \<and> cr_Functions chatReq = [] then []
      else convertToolChoice (cr_ToolChoice chatReq))
   \<and> jsonMember (encodeDeepSeekRequest (toDeepSeekRequest chatReq)) ''tool_choice'' =
     (if dr_ToolChoice (toDeepSeekRequest chatReq) = [] then None
      else Some (JString (dr_ToolChoice (toDeepSeekRequest chatReq))))
   \<and> oar_ToolChoice (convertClaudeToOpenAI marshal claudeReq) = clr_ToolChoice claudeReq
   \<and> jsonMember (encodeOpenAIRequest (convertClaudeToOpenAI marshal claudeReq)) ''tool_choice'' =
     (if clr_ToolChoice claudeReq = JNull then None else Some (clr_ToolChoice claudeReq))"
proof -
  have a: "dr_ToolChoice (toDeepSeekRequest chatReq) =
     (if cr_Tools chatReq = [] \<and> cr_Functions chatReq = [] then []
      else convertToolChoice (cr_ToolChoice chatReq))"
    by (simp add: toDeepSeekRequest_def Let_def)
  have b: "jsonMember (encodeDeepSeekRequest r) ''tool_choice'' =
     (if dr_ToolChoice r = [] then None else Some (JString (dr_ToolChoice r)))" for r
    by (simp add: jsonMember_def encodeDeepSeekRequest_def omitEmptyString_def)
  have c: "oar_ToolChoice (convertClaudeToOpenAI marshal claudeReq) = clr_ToolChoice claudeReq"
    by (simp add: convertClaudeToOpenAI_def)
  have d: "jsonMember (encodeOpenAIRequest r) ''tool_choice'' =
     (if oar_ToolChoice r = JNull then None else Some (oar_ToolChoice r))" for r
    by (simp add: jsonMember_def encodeOpenAIRequest_def omitEmptyNumber_def split: option.splits)
  show ?thesis
    using convertToolChoice_cases [of choice] a b [of "toDeepSeekRequest chatReq"] c
      d [of "convertClaudeToOpenAI marshal claudeReq"]
    by simp
qed

text \<open>
  The theorem at a DeepSeek request that declares one tool and selects the function
  \<^verbatim>\<open>foo\<close>: the request sent upstream carries \<^verbatim>\<open>"tool_choice":"auto"\<close>.
\<close>

theorem toolChoice_translation_witness:
  "jsonMember (encodeDeepSeekRequest (toDeepSeekRequest
      \<lparr>cr_Model = ''deepseek-chat'', cr_Messages = [], cr_Stream = False, cr_Functions = [],
       cr_Tools = [\<lparr>tool_Type = ''function'',
                    tool_Function = \<lparr>fn_Name = ''foo'', fn_Description = [], fn_Parameters = JNull\<rparr>\<rparr>],
       cr_ToolChoice = JObject [(''type'', JString ''function''),
                                (''function'', JObject [(''name'', JString ''foo'')])],
       cr_Temperature = None, cr_MaxTokens = None\<rparr>)) ''tool_choice'' = Some (JString ''auto'')"
  using toolChoice_translation
    [of "JObject [(''type'', JString ''function''), (''function'', JObject [(''name'', JString ''foo'')])]"
        "\<lparr>cr_Model = ''deepseek-chat'', cr_Messages = [], cr_Stream = False, cr_Functions = [],
       cr_Tools = [\<lparr>tool_Type = ''function'',
                    tool_Function = \<lparr>fn_Name = ''foo'', fn_Description = [], fn_Parameters = JNull\<rparr>\<rparr>],
       cr_ToolChoice = JObject [(''type'', JString ''function''),
                                (''function'', JObject [(''name'', JString ''foo'')])],
       cr_Temperature = None, cr_MaxTokens = None\<rparr>"]
  by (simp add: isFunctionSelector_def)

text \<open>
  C7 as stated fails. The Claude proxy, given the selector
  \<^verbatim>\<open>{"type":"function","function":{"name":"foo"}}\<close>, sends that selector upstream, not
  \<^verbatim>\<open>auto\<close>; given the string \<^verbatim>\<open>required\<close> it sends \<^verbatim>\<open>required\<close>, not an absent field. The
  DeepSeek proxy, given \<^verbatim>\<open>none\<close> on a request without tools, sends no \<^verbatim>\<open>tool_choice\<close>.
\<close>

theorem toolChoice_counterexample:
  "jsonMember (encodeOpenAIRequest (convertClaudeToOpenAI (\<lambda>j. None)
      \<lparr>clr_Model = ''claude-sonnet-4.5'', clr_Messages = [], clr_MaxTokens = None, clr_System = [],
       clr_Tools = [],
       clr_ToolChoice = JObject [(''type'', JString ''function''),
                                 (''function'', JObject [(''name'', JString ''foo'')])],
       clr_Temperature = None, clr_Stream = False, clr_StreamOptions = None, clr_Metadata = None\<rparr>))
     ''tool_choice''
   = Some (JObject [(''type'', JString ''function''), (''function'', JObject [(''name'', JString ''foo'')])])
   \<and> jsonMember (encodeOpenAIRequest (convertClaudeToOpenAI (\<lambda>j. None)
      \<lparr>clr_Model = ''claude-sonnet-4.5'', clr_Messages = [], clr_MaxTokens = None, clr_System = [],
       clr_Tools = [], clr_ToolChoice = JString ''required'',
       clr_Temperature = None, clr_Stream = False, clr_StreamOptions = None, clr_Metadata = None\<rparr>))
     ''tool_choice''
   = Some (JString ''required'')
   \<and> jsonMember (encodeDeepSeekRequest (toDeepSeekRequest
      \<lparr>cr_Model = ''deepseek-chat'', cr_Messages = [], cr_Stream = False, cr_Functions = [],
       cr_Tools = [], cr_ToolChoice = JString ''none'', cr_Temperature = None, cr_MaxTokens = None\<rparr>))
     ''tool_choice''
   = None"
  by (simp add: jsonMember_def encodeOpenAIRequest_def convertClaudeToOpenAI_def omitEmptyNumber_def
      encodeDeepSeekRequest_def toDeepSeekRequest_def omitEmptyString_def systemMessages_def
      convertMessages_def)

subsection \<open>Which messages are emitted\<close>

text \<open>
  C6 (as amended). In the Claude proxy the outbound message list is the system
  message, if any, followed by the contribution of each inbound message in order. A
  user message with \<^verbatim>\<open>tool_result\<close> parts contributes one tool-role message for each
  such part, whatever their content. Every other message contributes its translation,
  once, if and only if the translation has non-empty content or at least one tool
  call, and nothing otherwise. The DeepSeek proxy emits one message for every inbound
  message, whatever its content.
\<close>

theorem emitted_messages:
  "oar_Messages (convertClaudeToOpenAI marshal claudeReq) =
     systemMessages claudeReq @
     concat (map (\<lambda>msg.
        if toolResultParts msg \<noteq> [] then map toolResultMessage (toolResultParts msg)
        else if hasContent (regularMessage marshal msg) \<or> hasToolCalls (regularMessage marshal msg)
        then [emittedForm (regularMessage marshal msg)]
        else []) (clr_Messages claudeReq))
   \<and> length (dr_Messages (toDeepSeekRequest chatReq)) = length (cr_Messages chatReq)"
proof -
  have "length (dr_Messages (toDeepSeekRequest chatReq)) = length (cr_Messages chatReq)"
    by (simp add: toDeepSeekRequest_def convertMessages_def Let_def)
  moreover have "convertClaudeMessage marshal msg [] =
      (if toolResultParts msg \<noteq> [] then map toolResultMessage (toolResultParts msg)
        else if hasContent (regularMessage marshal msg) \<or> hasToolCalls (regularMessage marshal msg)
        then [emittedForm (regularMessage marshal msg)]
        else [])" for msg
    by (simp add: convertClaudeMessage_eq)
  ultimately show ?thesis
    by (simp add: convertClaudeToOpenAI_def fold_convertClaudeMessage)
qed

text \<open>
  The theorem at a Claude request of three messages: a user message with text, a user
  message whose content is the empty string (dropped) and an assistant message with
  text parts.
\<close>

theorem emitted_messages_witness:
  "oar_Messages (convertClaudeToOpenAI (\<lambda>j. None)
      \<lparr>clr_Model = ''claude-sonnet-4.5'',
       clr_Messages =
         [\<lparr>cm_Role = ''user'', cm_Content = Some (JString ''hi''), cm_ToolCalls = [],
            cm_ToolCallID = [], cm_Name = []\<rparr>,
          \<lparr>cm_Role = ''user'', cm_Content = Some (JString []), cm_ToolCalls = [],
            cm_ToolCallID = [], cm_Name = []\<rparr>,
          \<lparr>cm_Role = ''assistant'',
            cm_Content = Some (JArray [textObject ''a'', textObject ''b'']), cm_ToolCalls = [],
            cm_ToolCallID = [], cm_Name = []\<rparr>],
       clr_MaxTokens = None, clr_System = [], clr_Tools = [], clr_ToolChoice = JNull,
       clr_Temperature = None, clr_Stream = False, clr_StreamOptions = None, clr_Metadata = None\<rparr>)
   = [\<lparr>om_Role = ''user'', om_Content = JString ''hi'', om_ToolCalls = [], om_ToolCallID = [],
        om_Name = []\<rparr>,
      \<lparr>om_Role = ''assistant'', om_Content = JString (''a'' @ newline @ ''b''), om_ToolCalls = [],
        om_ToolCallID = [], om_Name = []\<rparr>]"
  using emitted_messages [of "\<lambda>j. None"
      "\<lparr>clr_Model = ''claude-sonnet-4.5'',
       clr_Messages =
         [\<lparr>cm_Role = ''user'', cm_Content = Some (JString ''hi''), cm_ToolCalls = [],
            cm_ToolCallID = [], cm_Name = []\<rparr>,
          \<lparr>cm_Role = ''user'', cm_Content = Some (JString []), cm_ToolCalls = [],
            cm_ToolCallID = [], cm_Name = []\<rparr>,
          \<lparr>cm_Role = ''assistant'',
            cm_Content = Some (JArray [textObject ''a'', textObject ''b'']), cm_ToolCalls = [],
            cm_ToolCallID = [], cm_Name = []\<rparr>],
       clr_MaxTokens = None, clr_System = [], clr_Tools = [], clr_ToolChoice = JNull,
       clr_Temperature = None, clr_Stream = False, clr_StreamOptions = None, clr_Metadata = None\<rparr>"]
  by (simp add: systemMessages_def toolResultParts_def regularMessage_def hasContent_def
      hasToolCalls_def emittedForm_def textObject_def zeroClaudeContentPart_def equalFold_def
      lowerASCII_def contentPartStep_def storeMembers_def mapIndex_def isToolResult_def)

text \<open>
  C6 as stated fails. The DeepSeek proxy emits a user message whose content is the
  empty string and which has no tool call. The Claude proxy emits a tool-role message
  with nil content and no tool call for a \<^verbatim>\<open>tool_result\<close> part without content.
\<close>

theorem emitted_messages_counterexample:
  "convertMessages
     [\<lparr>msg_Role = ''user'', msg_Content = Some (JString []), msg_ToolCalls = [],
        msg_ToolCallID = [], msg_Name = []\<rparr>]
   = [\<lparr>msg_Role = ''user'', msg_Content = Some (JString []), msg_ToolCalls = [],
        msg_ToolCallID = [], msg_Name = []\<rparr>]
   \<and> convertClaudeMessage (\<lambda>j. None)
     \<lparr>cm_Role = ''user'',
      cm_Content = Some (JArray [JObject [(''type'', JString ''tool_result''),
                                          (''tool_use_id'', JString ''t1'')]]),
      cm_ToolCalls = [], cm_ToolCallID = [], cm_Name = []\<rparr> []
   = [\<lparr>om_Role = ''tool'', om_Content = JNull, om_ToolCalls = [], om_ToolCallID = ''t1'',
        om_Name = []\<rparr>]
   \<and> \<not> hasContent \<lparr>om_Role = ''tool'', om_Content = JNull, om_ToolCalls = [], om_ToolCallID = ''t1'',
        om_Name = []\<rparr>
   \<and> \<not> hasToolCalls \<lparr>om_Role = ''tool'', om_Content = JNull, om_ToolCalls = [], om_ToolCallID = ''t1'',
        om_Name = []\<rparr>"
  by (simp add: convertMessages_def convertMessage_def GetContentString_def SetContentString_def
      convertClaudeMessage_def toolResultStep_def toolResultMessage_def storeMembers_def
      mapIndex_def hasContent_def hasToolCalls_def)

subsection \<open>Tool results\<close>

text \<open>
  C4 (as amended). In the Claude proxy, for every message of role \<^verbatim>\<open>user\<close> whose
  content decodes as an array of objects with at least one part of type
  \<^verbatim>\<open>tool_result\<close>, the translator emits, at the position of that message, one message
  for each such part in order and nothing else for that message: no regular message.
  Each has role \<^verbatim>\<open>tool\<close>, no tool calls, and as \<^verbatim>\<open>toolCallId\<close> the part's \<^verbatim>\<open>tool_use_id\<close>
  when that is a string (empty otherwise). Its content is the part's nested content
  when that is a string, and the texts of a non-empty array of text objects joined
  with newline.
\<close>

theorem tool_result_messages:
  "(cm_Role msg = ''user'' \<and> cm_Content msg = Some c \<and> unmarshalMaps c = Some parts
      \<and> filter isToolResult parts \<noteq> [] \<longrightarrow>
    oar_Messages (convertClaudeToOpenAI marshal (claudeReq\<lparr>clr_Messages := before @ msg # after\<rparr>))
    = oar_Messages (convertClaudeToOpenAI marshal (claudeReq\<lparr>clr_Messages := before\<rparr>))
      @ map toolResultMessage (filter isToolResult parts)
      @ fold (convertClaudeMessage marshal) after [])
   \<and> om_Role (toolResultMessage part) = ''tool''
   \<and> om_ToolCalls (toolResultMessage part) = []
   \<and> om_ToolCallID (toolResultMessage part) =
       (case mapIndex part ''tool_use_id'' of JString toolUseID \<Rightarrow> toolUseID | _ \<Rightarrow> [])
   \<and> (mapIndex part ''content'' = JString s \<longrightarrow> om_Content (toolResultMessage part) = JString s)
   \<and> (mapIndex part ''content'' = JArray (map textObject ts) \<and> ts \<noteq> [] \<longrightarrow>
       om_Content (toolResultMessage part) = JString (Join ts newline))"
proof -
  have "oar_Messages (convertClaudeToOpenAI marshal (claudeReq\<lparr>clr_Messages := before @ msg # after\<rparr>))
    = oar_Messages (convertClaudeToOpenAI marshal (claudeReq\<lparr>clr_Messages := before\<rparr>))
      @ map toolResultMessage (filter isToolResult parts)
      @ fold (convertClaudeMessage marshal) after []"
    if h: "cm_Role msg = ''user''" "cm_Content msg = Some c" "unmarshalMaps c = Some parts"
      "filter isToolResult parts \<noteq> []"
  proof -
    have "toolResultParts msg = filter isToolResult parts"
      using h by (simp add: toolResultParts_def)
    then show ?thesis
      using h(4) by (simp add: convertClaudeToOpenAI_def fold_convertClaudeMessage convertClaudeMessage_eq)
  qed
  moreover have "om_Content (toolResultMessage part) = JString (Join ts newline)"
    if "mapIndex part ''content'' = JArray (map textObject ts)" "ts \<noteq> []"
    using that by (simp add: toolResultMessage_def resultText_textObject Let_def)
  moreover have "om_Content (toolResultMessage part) = JString s" if "mapIndex part ''content'' = JString s"
    using that by (simp add: toolResultMessage_def)
  ultimately show ?thesis
    by (simp add: toolResultMessage_def)
qed

text \<open>
  The theorem at a request whose second message carries one tool result with two text
  objects, between two plain user messages.
\<close>

theorem tool_result_messages_witness:
  "oar_Messages (convertClaudeToOpenAI (\<lambda>j. None)
      \<lparr>clr_Model = ''claude-sonnet-4.5'',
       clr_Messages =
         [\<lparr>cm_Role = ''user'', cm_Content = Some (JString ''hi''), cm_ToolCalls = [],
            cm_ToolCallID = [], cm_Name = []\<rparr>,
          \<lparr>cm_Role = ''user'',
            cm_Content = Some (JArray [JObject [(''type'', JString ''tool_result''),
                                                (''tool_use_id'', JString ''t1''),
                                                (''content'', JArray [textObject ''a'', textObject ''b''])]]),
            cm_ToolCalls = [], cm_ToolCallID = [], cm_Name = []\<rparr>,
          \<lparr>cm_Role = ''user'', cm_Content = Some (JString ''go on''), cm_ToolCalls = [],
            cm_ToolCallID = [], cm_Name = []\<rparr>],
       clr_MaxTokens = None, clr_System = [], clr_Tools = [], clr_ToolChoice = JNull,
       clr_Temperature = None, clr_Stream = False, clr_StreamOptions = None, clr_Metadata = None\<rparr>)
   = [\<lparr>om_Role = ''user'', om_Content = JString ''hi'', om_ToolCalls = [], om_ToolCallID = [],
        om_Name = []\<rparr>,
      \<lparr>om_Role = ''tool'', om_Content = JString (''a'' @ newline @ ''b''), om_ToolCalls = [],
        om_ToolCallID = ''t1'', om_Name = []\<rparr>,
      \<lparr>om_Role = ''user'', om_Content = JString ''go on'', om_ToolCalls = [], om_ToolCallID = [],
        om_Name = []\<rparr>]"
proof -
  let ?part = "Some [(''type'', JString ''tool_result''), (''tool_use_id'', JString ''t1''),
                     (''content'', JArray [textObject ''a'', textObject ''b''])]"
  let ?c = "JArray [JObject [(''type'', JString ''tool_result''), (''tool_use_id'', JString ''t1''),
                             (''content'', JArray [textObject ''a'', textObject ''b''])]]"
  let ?msg = "\<lparr>cm_Role = ''user'', cm_Content = Some ?c, cm_ToolCalls = [], cm_ToolCallID = [],
               cm_Name = []\<rparr>"
  let ?hi = "\<lparr>cm_Role = ''user'', cm_Content = Some (JString ''hi''), cm_ToolCalls = [],
              cm_ToolCallID = [], cm_Name = []\<rparr>"
  let ?go = "\<lparr>cm_Role = ''user'', cm_Content = Some (JString ''go on''), cm_ToolCalls = [],
              cm_ToolCallID = [], cm_Name = []\<rparr>"
  let ?req = "\<lparr>clr_Model = ''claude-sonnet-4.5'', clr_Messages = [], clr_MaxTokens = None,
               clr_System = [], clr_Tools = [], clr_ToolChoice = JNull, clr_Temperature = None,
               clr_Stream = False, clr_StreamOptions = None, clr_Metadata = None\<rparr>"
  have parts: "unmarshalMaps ?c = Some [?part]"
    by (simp add: storeMembers_def)
  have hit: "filter isToolResult [?part] \<noteq> []"
    by (simp add: isToolResult_def mapIndex_def)
  have content: "mapIndex ?part ''content'' = JArray (map textObject [''a'', ''b''])"
    by (simp add: mapIndex_def)
  have before: "oar_Messages (convertClaudeToOpenAI (\<lambda>j. None) (?req\<lparr>clr_Messages := [?hi]\<rparr>))
      = [\<lparr>om_Role = ''user'', om_Content = JString ''hi'', om_ToolCalls = [], om_ToolCallID = [],
           om_Name = []\<rparr>]"
    by (simp add: convertClaudeToOpenAI_def systemMessages_def convertClaudeMessage_def
        regularMessage_def hasContent_def hasToolCalls_def)
  have after: "fold (convertClaudeMessage (\<lambda>j. None)) [?go] []
      = [\<lparr>om_Role = ''user'', om_Content = JString ''go on'', om_ToolCalls = [], om_ToolCallID = [],
           om_Name = []\<rparr>]"
    by (simp add: convertClaudeMessage_def regularMessage_def hasContent_def hasToolCalls_def)
  show ?thesis
    using tool_result_messages [where msg = ?msg and c = ?c and parts = "[?part]"
        and marshal = "\<lambda>j. None" and claudeReq = ?req and before = "[?hi]" and after = "[?go]"
        and part = ?part and s = "[]" and ts = "[''a'', ''b'']"] parts hit content before after
    by (simp add: isToolResult_def mapIndex_def toolResultMessage_def)
qed

text \<open>
  C4 as stated fails. A message of role \<^verbatim>\<open>assistant\<close> whose content is an array with a
  \<^verbatim>\<open>tool_result\<close> part yields no message at all in the Claude proxy. The DeepSeek proxy
  has no tool-result handling: a user message with such a part stays one user message,
  with empty content and no tool-call id.
\<close>

theorem tool_result_counterexample:
  "convertClaudeMessage (\<lambda>j. None)
     \<lparr>cm_Role = ''assistant'',
      cm_Content = Some (JArray [JObject [(''type'', JString ''tool_result''),
                                          (''tool_use_id'', JString ''t1''),
                                          (''content'', JString ''ok'')]]),
      cm_ToolCalls = [], cm_ToolCallID = [], cm_Name = []\<rparr> [] = []
   \<and> convertMessages
     [\<lparr>msg_Role = ''user'',
       msg_Content = Some (JArray [JObject [(''type'', JString ''tool_result''),
                                            (''tool_use_id'', JString ''t1''),
                                            (''content'', JString ''ok'')]]),
       msg_ToolCalls = [], msg_ToolCallID = [], msg_Name = []\<rparr>]
   = [\<lparr>msg_Role = ''user'', msg_Content = Some (JString []), msg_ToolCalls = [],
        msg_ToolCallID = [], msg_Name = []\<rparr>]"
  by (simp add: convertClaudeMessage_def regularMessage_def hasContent_def hasToolCalls_def
      zeroClaudeContentPart_def equalFold_def lowerASCII_def contentPartStep_def
      convertMessages_def convertMessage_def GetContentString_def SetContentString_def)

subsection \<open>Assistant messages with tool calls and no text\<close>

text \<open>
  C5, as the code has it. In the Claude proxy an assistant message that is translated
  on the regular path and ends up with at least one tool call and no non-empty content
  is emitted with its content set to nil, as the comments of the code announce
  (content set to null). The field is tagged \<^verbatim>\<open>omitempty\<close>, so a nil content is left out
  of the serialized message: the serialized object has no \<^verbatim>\<open>content\<close> member, where
  the member \<^verbatim>\<open>null\<close> was meant.
\<close>

theorem assistant_tool_calls_content_omitted:
  "toolResultParts msg = [] \<and> om_Role (regularMessage marshal msg) = ''assistant''
     \<and> hasToolCalls (regularMessage marshal msg) \<and> \<not> hasContent (regularMessage marshal msg) \<longrightarrow>
   convertClaudeMessage marshal msg messages =
     messages @ [(regularMessage marshal msg)\<lparr>om_Content := JNull\<rparr>]
   \<and> jsonMember (encodeOpenAIMessage ((regularMessage marshal msg)\<lparr>om_Content := JNull\<rparr>)) ''content''
       = None
   \<and> jsonMember (encodeOpenAIMessage ((regularMessage marshal msg)\<lparr>om_Content := JNull\<rparr>)) ''content''
       \<noteq> Some JNull"
  by (simp add: convertClaudeMessage_eq emittedForm_def jsonMember_content)

text \<open>
  The theorem at an assistant message whose content is one \<^verbatim>\<open>tool_use\<close> part: the
  message sent upstream is \<^verbatim>\<open>{"role":"assistant","tool_calls":[...]}\<close>.
\<close>

theorem assistant_tool_calls_content_omitted_witness:
  "map encodeOpenAIMessage (convertClaudeMessage (\<lambda>j. if j = JObject [] then Some ''{}'' else None)
     \<lparr>cm_Role = ''assistant'',
      cm_Content = Some (JArray [JObject [(''type'', JString ''tool_use''), (''id'', JString ''call_1''),
                                          (''name'', JString ''get_weather''), (''input'', JObject [])]]),
      cm_ToolCalls = [], cm_ToolCallID = [], cm_Name = []\<rparr> [])
   = [JObject [(''role'', JString ''assistant''),
               (''tool_calls'', JArray [JObject [(''id'', JString ''call_1''),
                                                 (''type'', JString ''function''),
                                                 (''function'', JObject [(''name'', JString ''get_weather''),
                                                                         (''arguments'', JString ''{}'')])]])]]"
proof -
  let ?marshal = "\<lambda>j. if j = JObject [] then Some ''{}'' else None"
  let ?msg = "\<lparr>cm_Role = ''assistant'',
      cm_Content = Some (JArray [JObject [(''type'', JString ''tool_use''), (''id'', JString ''call_1''),
                                          (''name'', JString ''get_weather''), (''input'', JObject [])]]),
      cm_ToolCalls = [], cm_ToolCallID = [], cm_Name = []\<rparr>"
  have m: "regularMessage ?marshal ?msg =
      \<lparr>om_Role = ''assistant'', om_Content = JNull,
       om_ToolCalls = [\<lparr>tc_ID = ''call_1'', tc_Type = ''function'', tc_Function_Name = ''get_weather'',
                         tc_Function_Arguments = ''{}''\<rparr>],
       om_ToolCallID = [], om_Name = []\<rparr>"
    by (simp add: regularMessage_def zeroClaudeContentPart_def equalFold_def lowerASCII_def
        contentPartStep_def storeMembers_def mapValue_def)
  have "toolResultParts ?msg = []"
    by (simp add: toolResultParts_def)
  then show ?thesis
    using assistant_tool_calls_content_omitted [of ?msg ?marshal "[]"] m
    by (simp add: hasContent_def hasToolCalls_def encodeOpenAIMessage_def omitEmptyToolCalls_def
        omitEmptyString_def encodeToolCall_def)
qed

section \<open>Properties of the stream relay\<close>

subsection \<open>Auxiliary facts\<close>

lemma ReadBytes_line:
  "CHR 0x0A \<notin> set body \<Longrightarrow> ReadBytes (body @ newline @ rest) = Some (body @ newline, rest)"
  by (induction body) (auto simp: newline_def)

lemma ReadBytes_append:
  "ReadBytes buf = Some (line, rest) \<Longrightarrow> ReadBytes (buf @ following) = Some (line, rest @ following)"
  by (induction buf arbitrary: line rest) (auto split: if_splits option.splits)

lemma ReadBytes_None: "ReadBytes buf = None \<Longrightarrow> CHR 0x0A \<notin> set buf"
  by (induction buf) (auto split: if_splits option.splits)

lemma ReadBytes_last:
  "ReadBytes buf = Some (line, rest) \<Longrightarrow> buf \<noteq> [] \<and> last buf = CHR 0x0A \<Longrightarrow>
   rest = [] \<or> last rest = CHR 0x0A"
  by (induction buf arbitrary: line rest) (auto split: if_splits option.splits)

lemma HasPrefix_not_mem:
  "HasPrefix (xs @ [c]) p \<Longrightarrow> c \<notin> set p \<Longrightarrow> length p \<le> length xs"
proof (rule ccontr)
  assume h: "HasPrefix (xs @ [c]) p" "c \<notin> set p" and "\<not> length p \<le> length xs"
  then have "take (length p) (xs @ [c]) = xs @ [c]" by simp
  with h(1) have "p = xs @ [c]" by (simp add: HasPrefix_def)
  with h(2) show False by simp
qed

lemma leadingSpace_cases:
  "leadingSpace runes s = 0 \<or> (\<exists>p \<in> set runes. HasPrefix s p \<and> leadingSpace runes s = length p)"
  by (auto simp: leadingSpace_def find_Some_iff split: option.splits)

lemma trimLeading_keeps_last:
  "\<forall>p \<in> set runes. c \<notin> set p \<Longrightarrow> trimLeading runes (xs @ [c]) \<noteq> []"
proof (induction "length xs" arbitrary: xs rule: less_induct)
  case less
  show ?case
  proof (cases "leadingSpace runes (xs @ [c]) = 0")
    case True
    then show ?thesis by (subst trimLeading.simps) simp
  next
    case False
    then obtain p where p: "p \<in> set runes" "HasPrefix (xs @ [c]) p" "leadingSpace runes (xs @ [c]) = length p"
      using leadingSpace_cases [of runes "xs @ [c]"] by auto
    then have le: "length p \<le> length xs"
      using HasPrefix_not_mem less.prems by blast
    have pos: "0 < length p" using False p(3) by simp
    have "trimLeading runes (xs @ [c]) = trimLeading runes (drop (length p) xs @ [c])"
      using False p(3) le by (subst trimLeading.simps) simp
    moreover have "trimLeading runes (drop (length p) xs @ [c]) \<noteq> []"
      using less.hyps [of "drop (length p) xs"] less.prems pos le
      by (cases xs) auto
    ultimately show ?thesis by simp
  qed
qed

lemma trimLeading_no_space:
  "leadingSpace runes s = 0 \<Longrightarrow> trimLeading runes s = s"
  by (subst trimLeading.simps) simp

lemma TrimSpace_data_line: "HasPrefix line ''data: '' \<Longrightarrow> TrimSpace line \<noteq> []"
proof -
  assume "HasPrefix line ''data: ''"
  then obtain t where line: "line = CHR ''d'' # t"
    by (cases line) (auto simp: HasPrefix_def)
  have "leadingSpace spaceRunes (CHR ''d'' # t) = 0"
    by (simp add: leadingSpace_def spaceRunes_def HasPrefix_def)
  then have left: "TrimLeftSpace line = CHR ''d'' # t"
    by (simp add: TrimLeftSpace_def line trimLeading_no_space)
  have "\<forall>p \<in> set (map rev spaceRunes). CHR ''d'' \<notin> set p"
    by (simp add: spaceRunes_def)
  then have "trimLeading (map rev spaceRunes) (rev t @ [CHR ''d'']) \<noteq> []"
    by (rule trimLeading_keeps_last)
  then show ?thesis
    by (simp add: TrimSpace_def TrimRightSpace_def left)
qed

lemma TrimSpace_newline: "TrimSpace newline = []"
  by code_simp

lemma TrimSpace_DONE: "TrimSpace (''[DONE]'' @ newline) = ''[DONE]''"
  by code_simp

lemma relayLoop_line:
  "CHR 0x0A \<notin> set body \<Longrightarrow>
   relayLoop lib originalModel (body @ newline @ rest) =
     (if TrimSpace (body @ newline) = []
      then (body @ newline @ fst (relayLoop lib originalModel rest), snd (relayLoop lib originalModel rest))
      else (case relayLine lib originalModel (body @ newline) of
              (written, Some e) \<Rightarrow> (written, e)
            | (written, None) \<Rightarrow>
                (written @ fst (relayLoop lib originalModel rest), snd (relayLoop lib originalModel rest))))"
  by (subst relayLoop.simps) (simp add: ReadBytes_line split: prod.splits option.splits)

lemma relayLoop_append:
  "relayLoop lib originalModel pre = (out, EndOfInput) \<Longrightarrow> pre = [] \<or> last pre = CHR 0x0A \<Longrightarrow>
   relayLoop lib originalModel (pre @ rest) =
     (out @ fst (relayLoop lib originalModel rest), snd (relayLoop lib originalModel rest))"
proof (induction lib originalModel pre arbitrary: out rule: relayLoop.induct)
  case (1 lib originalModel buf)
  show ?case
  proof (cases "ReadBytes buf")
    case None
    then have "buf = []"
      using "1.prems"(2) ReadBytes_None [of buf] by (cases buf rule: rev_cases) auto
    moreover have "out = []"
      using "1.prems"(1) None by (subst (asm) relayLoop.simps) simp
    ultimately show ?thesis by simp
  next
    case (Some a)
    obtain line rest' where a: "a = (line, rest')" by (cases a)
    have rb: "ReadBytes buf = Some (line, rest')" using Some a by simp
    have nonempty: "buf \<noteq> []" using rb by auto
    have tail: "rest' = [] \<or> last rest' = CHR 0x0A"
      using ReadBytes_last [OF rb] "1.prems"(2) nonempty by simp
    have rb': "ReadBytes (buf @ rest) = Some (line, rest' @ rest)"
      using rb by (rule ReadBytes_append)
    obtain out' e' where r': "relayLoop lib originalModel rest' = (out', e')"
      by (cases "relayLoop lib originalModel rest'")
    show ?thesis
    proof (cases "length (TrimSpace line) = 0")
      case True
      have "relayLoop lib originalModel buf = (line @ out', e')"
        using rb True r' by (subst relayLoop.simps) simp
      then have o: "out = line @ out'" and e: "e' = EndOfInput"
        using "1.prems"(1) by simp_all
      have ih: "relayLoop lib originalModel (rest' @ rest) =
          (out' @ fst (relayLoop lib originalModel rest), snd (relayLoop lib originalModel rest))"
        using "1.IH"(1) [OF rb refl True] r' e tail
        by simp
      show ?thesis
        using rb' True ih o by (subst relayLoop.simps) simp
    next
      case False
      obtain written stop where rl: "relayLine lib originalModel line = (written, stop)"
        by (cases "relayLine lib originalModel line")
      have stop: "stop = None"
      proof (cases stop)
        case None
        then show ?thesis .
      next
        case (Some e)
        then have "relayLoop lib originalModel buf = (written, e)"
          using rb False rl by (subst relayLoop.simps) simp
        moreover have "e \<noteq> EndOfInput"
          using rl Some
          by (auto simp: relayLine_def Let_def split: if_splits option.splits)
        ultimately show ?thesis using "1.prems"(1) by simp
      qed
      have "relayLoop lib originalModel buf = (written @ out', e')"
        using rb False rl stop r' by (subst relayLoop.simps) simp
      then have o: "out = written @ out'" and e: "e' = EndOfInput"
        using "1.prems"(1) by simp_all
      have ih: "relayLoop lib originalModel (rest' @ rest) =
          (out' @ fst (relayLoop lib originalModel rest), snd (relayLoop lib originalModel rest))"
        using "1.IH"(2) [OF rb refl False rl [unfolded stop, symmetric] refl] r' e tail
        by simp
      show ?thesis
        using rb' False rl stop ih o by (subst relayLoop.simps) simp
    qed
  qed
qed

subsection \<open>The loop on an event, a blank line and the end marker\<close>

text \<open>
  The loop on an input that starts with a line \<^verbatim>\<open>data: \<close> and a payload that decodes to
  an object, then a blank line, then the line \<^verbatim>\<open>data: [DONE]\<close>.
\<close>

lemma relayLoop_event_blank_done:
  assumes "CHR 0x0A \<notin> set payload"
    and "TrimSpace (payload @ newline) \<noteq> ''[DONE]''"
    and "Unmarshal lib (TrimSpace (payload @ newline)) = Some (JObject kvs)"
    and "Marshal lib (JObject (AList.update ''model'' (JString originalModel) (storeMembers kvs [])))
           = Some modifiedData"
  shows "relayLoop lib originalModel
           (''data: '' @ payload @ newline @ newline @ ''data: [DONE]'' @ newline @ rest)
         = (''data: '' @ modifiedData @ newline @ newline @ newline @ ''data: [DONE]'' @ newline @ newline,
            Done)
       \<and> map_of (AList.update ''model'' (JString originalModel) (storeMembers kvs []))
         = (map_of (rev kvs))(''model'' \<mapsto> JString originalModel)"
proof -
  have event: "relayLine lib originalModel ((''data: '' @ payload) @ newline)
      = (''data: '' @ modifiedData @ newline @ newline, None)"
    using assms(2-4) by (simp add: relayLine_def HasPrefix_def TrimPrefix_def)
  have "HasPrefix ((''data: '' @ payload) @ newline) ''data: ''"
    by (simp add: HasPrefix_def)
  then have nonblank: "TrimSpace ((''data: '' @ payload) @ newline) \<noteq> []"
    by (rule TrimSpace_data_line)
  have end_marker: "relayLine lib originalModel (''data: [DONE]'' @ newline)
      = (''data: [DONE]'' @ newline @ newline, Some Done)"
    using TrimSpace_DONE by (simp add: relayLine_def HasPrefix_def TrimPrefix_def)
  have "HasPrefix (''data: [DONE]'' @ newline) ''data: ''"
    by (simp add: HasPrefix_def)
  then have nonblank': "TrimSpace (''data: [DONE]'' @ newline) \<noteq> []"
    by (rule TrimSpace_data_line)
  have third: "relayLoop lib originalModel (''data: [DONE]'' @ newline @ rest)
      = (''data: [DONE]'' @ newline @ newline, Done)"
    using relayLoop_line [of "''data: [DONE]''" lib originalModel rest] end_marker nonblank'
    by simp
  have second: "relayLoop lib originalModel (newline @ ''data: [DONE]'' @ newline @ rest)
      = (newline @ ''data: [DONE]'' @ newline @ newline, Done)"
    using relayLoop_line [of "[]" lib originalModel "''data: [DONE]'' @ newline @ rest"]
      TrimSpace_newline third
    by simp
  have "CHR 0x0A \<notin> set (''data: '' @ payload)"
    using assms(1) by simp
  then have first: "relayLoop lib originalModel
      ((''data: '' @ payload) @ newline @ newline @ ''data: [DONE]'' @ newline @ rest)
      = (''data: '' @ modifiedData @ newline @ newline @ newline @ ''data: [DONE]'' @ newline @ newline,
         Done)"
    using relayLoop_line [of "''data: '' @ payload" lib originalModel
        "newline @ ''data: [DONE]'' @ newline @ rest"] event nonblank second
    by simp
  have "map_of (AList.update ''model'' (JString originalModel) (storeMembers kvs [])) k
      = ((map_of (rev kvs))(''model'' \<mapsto> JString originalModel)) k" for k
    by (simp add: update_conv' map_of_storeMembers split: option.splits)
  then show ?thesis
    using first by auto
qed

subsection \<open>The loop on an event that does not decode\<close>

text \<open>
  The loop on a line \<^verbatim>\<open>data: \<close> with a payload that does not decode, reached after the
  complete lines \<open>pre\<close>.
\<close>

lemma relayLoop_malformed_event:
  assumes "relayLoop lib originalModel pre = (out, EndOfInput)"
    and "pre = [] \<or> last pre = CHR 0x0A"
    and "CHR 0x0A \<notin> set payload"
    and "TrimSpace (payload @ newline) \<noteq> ''[DONE]''"
    and "\<not> decodes lib (TrimSpace (payload @ newline))"
  shows "relayLoop lib originalModel (pre @ ''data: '' @ payload @ newline @ rest)
         = (out @ ''data: '' @ payload @ newline @ fst (relayLoop lib originalModel rest),
            snd (relayLoop lib originalModel rest))"
proof -
  have line: "relayLine lib originalModel ((''data: '' @ payload) @ newline)
      = ((''data: '' @ payload) @ newline, None)"
    using assms(4,5)
    by (auto simp: relayLine_def HasPrefix_def TrimPrefix_def decodes_def split: option.splits)
  have "HasPrefix ((''data: '' @ payload) @ newline) ''data: ''"
    by (simp add: HasPrefix_def)
  then have nonblank: "TrimSpace ((''data: '' @ payload) @ newline) \<noteq> []"
    by (rule TrimSpace_data_line)
  have "CHR 0x0A \<notin> set (''data: '' @ payload)"
    using assms(3) by simp
  then have "relayLoop lib originalModel ((''data: '' @ payload) @ newline @ rest)
      = (((''data: '' @ payload) @ newline) @ fst (relayLoop lib originalModel rest),
         snd (relayLoop lib originalModel rest))"
    using relayLoop_line [of "''data: '' @ payload" lib originalModel rest] line nonblank
    by simp
  then show ?thesis
    using relayLoop_append [OF assms(1,2), of "''data: '' @ payload @ newline @ rest"]
    by simp
qed

section \<open>Properties of the upstream dispatch\<close>

lemma isModelNotFoundError_iff:
  "isModelNotFoundError lib statusCode body =
     (statusCode = 404 \<or> ((statusCode = 400 \<or> statusCode = 422) \<and> modelNotFoundBody lib body))"
  by (auto simp: isModelNotFoundError_def modelNotFoundBody_def notFoundPhrases_def Let_def)

lemma buildDeepSeekHTTPRequest_body:
  "buildDeepSeekHTTPRequest lib activeConfig origReq body stream apiKey = Some proxyReq \<Longrightarrow>
   buildDeepSeekHTTPRequest lib activeConfig origReq body' stream apiKey = Some (proxyReq\<lparr>ur_Body := body'\<rparr>)"
  by (auto simp: buildDeepSeekHTTPRequest_def Let_def split: if_splits)

lemma buildDeepSeekHTTPRequest_ur_Body:
  "buildDeepSeekHTTPRequest lib activeConfig origReq body stream apiKey = Some proxyReq \<Longrightarrow>
   ur_Body proxyReq = body"
  by (auto simp: buildDeepSeekHTTPRequest_def Let_def split: if_splits)

lemma doDeepSeekRequestWithFallback_sent:
  "length (snd (doDeepSeekRequestWithFallback lib activeConfig upstream sent origReq body dsReq stream apiKey))
     \<le> length sent + 2"
  by (simp add: doDeepSeekRequestWithFallback_def clientDo_def Let_def split: option.splits)

subsection \<open>The fallback\<close>

text \<open>
  C2 (as amended). Let the first request be built and let the fallback request encode.
  The first attempt leads to the fallback exactly when it ends in a transport error, or
  in a response whose body was read completely and whose status is 404, or 400 or 422
  with a body that, in lower case, contains \<^verbatim>\<open>model\<close> and one of the listed phrases.
  Then exactly one more request is sent: the first request with its body replaced by
  the encoding of the same request for the model \<^verbatim>\<open>deepseek-reasoner\<close>; its response is
  returned with that model as the model used, its transport error as an error. In
  every other case only the first request is sent, and its response is returned with
  the requested model, except that an error response whose body cannot be read is
  returned as an error. At most two requests are sent in all.
\<close>

theorem fallback_dispatch:
  assumes "buildDeepSeekHTTPRequest lib activeConfig origReq body stream apiKey = Some proxyReq"
    and "Marshal lib (encodeDeepSeekRequest (dsReq\<lparr>dr_Model := deepseekReasonerModel\<rparr>)) = Some fallbackBody"
  shows "doDeepSeekRequestWithFallback lib activeConfig upstream sent origReq body dsReq stream apiKey =
     (if triggersFallback lib (upstream (sent @ [proxyReq]))
      then (map_option (\<lambda>resp. (resp, deepseekReasonerModel))
              (upstream (sent @ [proxyReq, proxyReq\<lparr>ur_Body := fallbackBody\<rparr>])),
            sent @ [proxyReq, proxyReq\<lparr>ur_Body := fallbackBody\<rparr>])
      else (case upstream (sent @ [proxyReq]) of
              None \<Rightarrow> None
            | Some resp \<Rightarrow> if StatusCode resp \<ge> 400 \<and> rsp_BodyError resp then None
                          else Some (resp, dr_Model dsReq),
            sent @ [proxyReq]))
   \<and> ur_Body proxyReq = body
   \<and> length (snd (doDeepSeekRequestWithFallback lib activeConfig upstream sent origReq body dsReq
                     stream apiKey)) \<le> length sent + 2"
proof -
  have "doDeepSeekRequestWithFallback lib activeConfig upstream sent origReq body dsReq stream apiKey =
     (if triggersFallback lib (upstream (sent @ [proxyReq]))
      then (map_option (\<lambda>resp. (resp, deepseekReasonerModel))
              (upstream (sent @ [proxyReq, proxyReq\<lparr>ur_Body := fallbackBody\<rparr>])),
            sent @ [proxyReq, proxyReq\<lparr>ur_Body := fallbackBody\<rparr>])
      else (case upstream (sent @ [proxyReq]) of
              None \<Rightarrow> None
            | Some resp \<Rightarrow> if StatusCode resp \<ge> 400 \<and> rsp_BodyError resp then None
                          else Some (resp, dr_Model dsReq),
            sent @ [proxyReq]))"
    using assms buildDeepSeekHTTPRequest_body [OF assms(1), of fallbackBody]
    by (auto simp: doDeepSeekRequestWithFallback_def clientDo_def Let_def triggersFallback_def
        isModelNotFoundError_iff split: option.splits)
  then show ?thesis
    using buildDeepSeekHTTPRequest_ur_Body [OF assms(1)]
      doDeepSeekRequestWithFallback_sent [of lib activeConfig upstream sent origReq body dsReq stream apiKey]
    by simp
qed

text \<open>
  The theorem at three first responses: 404 and a 400 that reports that the model does
  not exist are followed by one request for \<^verbatim>\<open>deepseek-reasoner\<close>, whose response is
  returned; 429 is returned as it is, with no second request.
\<close>

theorem fallback_dispatch_witness:
  \<open>doDeepSeekRequestWithFallback exampleLib exampleConfig
      (exampleUpstream (exampleResponse 404 [] False) (exampleResponse 200 ''ok'' False)) []
      exampleRequest ''{"model":"deepseek-chat","messages":[],"stream":false}'' exampleDeepSeekRequest
      False ''k''
   = (Some (exampleResponse 200 ''ok'' False, ''deepseek-reasoner''),
      [exampleProxyRequest ''{"model":"deepseek-chat","messages":[],"stream":false}'',
       exampleProxyRequest ''{"model":"deepseek-reasoner","messages":[],"stream":false}''])
   \<and> doDeepSeekRequestWithFallback exampleLib exampleConfig
      (exampleUpstream (exampleResponse 400 ''The Model does not exist'' False)
         (exampleResponse 200 ''ok'' False)) []
      exampleRequest ''{"model":"deepseek-chat","messages":[],"stream":false}'' exampleDeepSeekRequest
      False ''k''
   = (Some (exampleResponse 200 ''ok'' False, ''deepseek-reasoner''),
      [exampleProxyRequest ''{"model":"deepseek-chat","messages":[],"stream":false}'',
       exampleProxyRequest ''{"model":"deepseek-reasoner","messages":[],"stream":false}''])
   \<and> doDeepSeekRequestWithFallback exampleLib exampleConfig
      (exampleUpstream (exampleResponse 429 ''slow down'' False) (exampleResponse 200 ''ok'' False)) []
      exampleRequest ''{"model":"deepseek-chat","messages":[],"stream":false}'' exampleDeepSeekRequest
      False ''k''
   = (Some (exampleResponse 429 ''slow down'' False, ''deepseek-chat''),
      [exampleProxyRequest ''{"model":"deepseek-chat","messages":[],"stream":false}''])\<close>
proof -
  let ?body = \<open>''{"model":"deepseek-chat","messages":[],"stream":false}''\<close>
  let ?fallbackBody = \<open>''{"model":"deepseek-reasoner","messages":[],"stream":false}''\<close>
  have build: "buildDeepSeekHTTPRequest exampleLib exampleConfig exampleRequest ?body False ''k''
      = Some (exampleProxyRequest ?body)"
    by (simp add: buildDeepSeekHTTPRequest_def exampleLib_def exampleConfig_def exampleRequest_def
        exampleProxyRequest_def deepseekEndpoint_def copyHeaders_def skipHeaders_def HeaderAdd_def
        HeaderSet_def HeaderGet_def)
  have marshal: "Marshal exampleLib (encodeDeepSeekRequest
        (exampleDeepSeekRequest\<lparr>dr_Model := deepseekReasonerModel\<rparr>)) = Some ?fallbackBody"
    by (simp add: exampleLib_def exampleValues_def encodeDeepSeekRequest_def exampleDeepSeekRequest_def
        deepseekReasonerModel_def omitEmptyString_def)
  have "map lowerASCII ''The Model does not exist'' = ''the model does not exist''"
    by code_simp
  then have lower: "ToLower exampleLib ''The Model does not exist'' = ''the model does not exist''"
    by (simp add: exampleLib_def)
  have t404: "triggersFallback exampleLib (Some (exampleResponse 404 [] False))"
    by (simp add: triggersFallback_def exampleResponse_def)
  have t400: "triggersFallback exampleLib (Some (exampleResponse 400 ''The Model does not exist'' False))"
    by (simp add: triggersFallback_def exampleResponse_def modelNotFoundBody_def lower
        notFoundPhrases_def HasPrefix_def)
  have t429: "\<not> triggersFallback exampleLib (Some (exampleResponse 429 ''slow down'' False))"
    by (simp add: triggersFallback_def exampleResponse_def)
  have swap: "(exampleProxyRequest ?body)\<lparr>ur_Body := ?fallbackBody\<rparr> = exampleProxyRequest ?fallbackBody"
    by (simp add: exampleProxyRequest_def)
  show ?thesis
    using fallback_dispatch [OF build marshal, of
        "exampleUpstream (exampleResponse 404 [] False) (exampleResponse 200 ''ok'' False)" "[]"]
      fallback_dispatch [OF build marshal, of
        "exampleUpstream (exampleResponse 400 ''The Model does not exist'' False)
           (exampleResponse 200 ''ok'' False)" "[]"]
      fallback_dispatch [OF build marshal, of
        "exampleUpstream (exampleResponse 429 ''slow down'' False) (exampleResponse 200 ''ok'' False)" "[]"]
      t404 t400 t429
    by (simp add: swap exampleUpstream_def deepseekReasonerModel_def exampleDeepSeekRequest_def
        exampleResponse_def)
qed

text \<open>
  C2 as stated fails. A first response with status 404 whose body cannot be read does
  not lead to the fallback: one request is sent and the caller gets an error.
\<close>

theorem fallback_counterexample:
  \<open>doDeepSeekRequestWithFallback exampleLib exampleConfig
      (exampleUpstream (exampleResponse 404 [] True) (exampleResponse 200 ''ok'' False)) []
      exampleRequest ''{"model":"deepseek-chat","messages":[],"stream":false}'' exampleDeepSeekRequest
      False ''k''
   = (None, [exampleProxyRequest ''{"model":"deepseek-chat","messages":[],"stream":false}''])\<close>
  by (simp add: doDeepSeekRequestWithFallback_def buildDeepSeekHTTPRequest_def exampleLib_def
      exampleConfig_def exampleRequest_def exampleProxyRequest_def deepseekEndpoint_def
      copyHeaders_def skipHeaders_def HeaderAdd_def HeaderSet_def HeaderGet_def clientDo_def
      exampleUpstream_def exampleResponse_def)

section \<open>Properties of the buffered response\<close>

lemma fold_toolCallStep:
  "fold toolCallStep tcs acc = acc @ filter (\<lambda>tc. tc_Function_Name tc \<noteq> []) tcs"
  by (induction tcs arbitrary: acc) (simp_all add: toolCallStep_def)

text \<open>
  C9, as the code has it. The DeepSeek proxy copies the message of each choice, tool
  calls included, and then appends to the copy every tool call with a non-empty
  function name. The tool calls of the output are therefore all the tool calls
  received, those with an empty function name too, followed once more by those with a
  non-empty function name; the other fields of the response keep their values, the
  model being the effective model.
\<close>

theorem buffered_tool_calls:
  "msg_ToolCalls (ch_Message (convertChoice choice)) =
     msg_ToolCalls (ch_Message choice)
     @ filter (\<lambda>tc. tc_Function_Name tc \<noteq> []) (msg_ToolCalls (ch_Message choice))
   \<and> rs_Choices (toOpenAIResp originalModel deepseekResp) = map convertChoice (rs_Choices deepseekResp)"
  by (simp add: convertChoice_def toOpenAIResp_def fold_toolCallStep Let_def)

text \<open>
  The theorem at a choice with the tool calls \<^verbatim>\<open>a\<close>, of the function \<^verbatim>\<open>f\<close>, and \<^verbatim>\<open>b\<close>, of
  the empty function name: the output lists \<^verbatim>\<open>a\<close>, \<^verbatim>\<open>b\<close>, \<^verbatim>\<open>a\<close>.
\<close>

theorem buffered_tool_calls_witness:
  "map tc_ID (msg_ToolCalls (ch_Message (convertChoice
     \<lparr>ch_Index = 0,
      ch_Message = \<lparr>msg_Role = ''assistant'', msg_Content = None,
                     msg_ToolCalls = [\<lparr>tc_ID = ''a'', tc_Type = ''function'', tc_Function_Name = ''f'',
                                       tc_Function_Arguments = ''{}''\<rparr>,
                                      \<lparr>tc_ID = ''b'', tc_Type = ''function'', tc_Function_Name = [],
                                       tc_Function_Arguments = ''{}''\<rparr>],
                     msg_ToolCallID = [], msg_Name = []\<rparr>,
      ch_FinishReason = ''tool_calls''\<rparr>))) = [''a'', ''b'', ''a'']"
  using buffered_tool_calls [of
     "\<lparr>ch_Index = 0,
      ch_Message = \<lparr>msg_Role = ''assistant'', msg_Content = None,
                     msg_ToolCalls = [\<lparr>tc_ID = ''a'', tc_Type = ''function'', tc_Function_Name = ''f'',
                                       tc_Function_Arguments = ''{}''\<rparr>,
                                      \<lparr>tc_ID = ''b'', tc_Type = ''function'', tc_Function_Name = [],
                                       tc_Function_Arguments = ''{}''\<rparr>],
                     msg_ToolCallID = [], msg_Name = []\<rparr>,
      ch_FinishReason = ''tool_calls''\<rparr>"]
  by simp

section \<open>Properties of the handlers\<close>

lemma HasPrefix_length: "HasPrefix s p \<Longrightarrow> length p \<le> length s"
proof -
  assume "HasPrefix s p"
  then have "length (take (length p) s) = length p"
    by (simp add: HasPrefix_def)
  then show ?thesis by simp
qed

lemma TrimPrefix_cases:
  assumes "p \<noteq> []"
  shows "(TrimPrefix s p = [] \<or> TrimPrefix s p = s) = (\<not> (HasPrefix s p \<and> length s > length p))"
proof (cases "HasPrefix s p")
  case True
  then have len: "length p \<le> length s"
    by (rule HasPrefix_length)
  have "drop (length p) s \<noteq> s"
  proof
    assume "drop (length p) s = s"
    then have "length (drop (length p) s) = length s" by simp
    moreover obtain c cs where "p = c # cs" using assms by (cases p) auto
    ultimately show False using len by simp
  qed
  then show ?thesis
    using True len by (auto simp: TrimPrefix_def)
next
  case False
  then show ?thesis by (simp add: TrimPrefix_def)
qed

lemma TrimPrefix_Bearer:
  "(TrimPrefix authHeader ''Bearer '' = [] \<or> TrimPrefix authHeader ''Bearer '' = authHeader)
     = (\<not> hasBearerToken authHeader)"
  using TrimPrefix_cases [of "''Bearer ''" authHeader] by (simp add: hasBearerToken_def eval_nat_numeral)

lemma Error_fresh:
  "w_Status w = None \<Longrightarrow> \<not> w_Panicked w \<Longrightarrow> w_Body w = [] \<Longrightarrow> 100 \<le> code \<Longrightarrow> code \<le> 999 \<Longrightarrow>
   w_Status (Error w msg code) = Some code \<and> w_Body (Error w msg code) = msg @ newline
   \<and> HeaderGet (w_Header (Error w msg code)) ''Content-Type'' = ''text/plain; charset=utf-8''"
  by (simp add: Error_def SetHeader_def WriteHeader_def Write_def HeaderSet_def HeaderGet_def Let_def
      update_conv')

lemma enableCors_fresh:
  "w_Status (enableCors newResponseWriter) = None \<and> \<not> w_Panicked (enableCors newResponseWriter)
   \<and> w_Body (enableCors newResponseWriter) = []"
  by (simp add: enableCors_def SetHeader_def newResponseWriter_def Let_def)

text \<open>
  C10. A \<^verbatim>\<open>GET /v1/models\<close> request without a usable key is answered with status 401 and
  a plain-text message, and nothing is sent upstream: in the DeepSeek proxy when the
  Authorization header carries no Bearer token and no server key is configured, in the
  Claude proxy when the Authorization header does not start with \<^verbatim>\<open>Bearer \<close>, and also
  when it carries an empty token and no server key is configured.
\<close>

theorem models_need_key:
  assumes "rq_Method r = ''GET''" and "rq_Path r = ''/v1/models''"
  shows "(\<not> hasBearerToken (HeaderGet (rq_Header r) ''Authorization'') \<longrightarrow>
          proxyHandler lib [] activeConfig now upstream r =
            (Error (enableCors newResponseWriter)
               ''API key required: please provide Authorization header or configure DEEPSEEK_API_KEY environment variable''
               401, []))
       \<and> (\<not> HasPrefix (HeaderGet (rq_Header r) ''Authorization'') ''Bearer '' \<longrightarrow>
          proxyHandlerClaude lib poeAPIKey now upstream r =
            (Error (enableCors newResponseWriter) ''Missing or invalid Authorization header'' 401, []))
       \<and> (HeaderGet (rq_Header r) ''Authorization'' = ''Bearer '' \<longrightarrow>
          proxyHandlerClaude lib [] now upstream r =
            (Error (enableCors newResponseWriter) ''No API key available'' 401, []))
       \<and> w_Status (Error (enableCors newResponseWriter) msg 401) = Some 401
       \<and> w_Body (Error (enableCors newResponseWriter) msg 401) = msg @ newline
       \<and> HeaderGet (w_Header (Error (enableCors newResponseWriter) msg 401)) ''Content-Type''
           = ''text/plain; charset=utf-8''"
proof -
  have "proxyHandler lib [] activeConfig now upstream r =
            (Error (enableCors newResponseWriter)
               ''API key required: please provide Authorization header or configure DEEPSEEK_API_KEY environment variable''
               401, [])"
    if "\<not> hasBearerToken (HeaderGet (rq_Header r) ''Authorization'')"
    using that assms TrimPrefix_Bearer [of "HeaderGet (rq_Header r) ''Authorization''"]
    by (simp add: proxyHandler_def Let_def)
  moreover have "proxyHandlerClaude lib poeAPIKey now upstream r =
            (Error (enableCors newResponseWriter) ''Missing or invalid Authorization header'' 401, [])"
    if "\<not> HasPrefix (HeaderGet (rq_Header r) ''Authorization'') ''Bearer ''"
    using that assms by (simp add: proxyHandlerClaude_def Let_def)
  moreover have "proxyHandlerClaude lib [] now upstream r =
            (Error (enableCors newResponseWriter) ''No API key available'' 401, [])"
    if "HeaderGet (rq_Header r) ''Authorization'' = ''Bearer ''"
    using that assms by (simp add: proxyHandlerClaude_def Let_def HasPrefix_def TrimPrefix_def)
  ultimately show ?thesis
    using Error_fresh [of "enableCors newResponseWriter" 401 msg] enableCors_fresh
    by simp
qed

text \<open>
  The theorem at a \<^verbatim>\<open>GET /v1/models\<close> request without any header, for both proxies
  without a server key.
\<close>

theorem models_need_key_witness:
  "w_Status (fst (proxyHandler exampleLib [] exampleConfig 0 (\<lambda>sent. None)
      \<lparr>rq_Method = ''GET'', rq_Path = ''/v1/models'', rq_RawQuery = [], rq_Header = [],
       rq_Body = Some []\<rparr>)) = Some 401
   \<and> w_Status (fst (proxyHandlerClaude exampleLib [] 0 (\<lambda>sent. None)
      \<lparr>rq_Method = ''GET'', rq_Path = ''/v1/models'', rq_RawQuery = [], rq_Header = [],
       rq_Body = Some []\<rparr>)) = Some 401
   \<and> w_Body (fst (proxyHandlerClaude exampleLib [] 0 (\<lambda>sent. None)
      \<lparr>rq_Method = ''GET'', rq_Path = ''/v1/models'', rq_RawQuery = [], rq_Header = [],
       rq_Body = Some []\<rparr>)) = ''Missing or invalid Authorization header'' @ newline"
  using models_need_key [where r = "\<lparr>rq_Method = ''GET'', rq_Path = ''/v1/models'', rq_RawQuery = [],
        rq_Header = [], rq_Body = Some []\<rparr>" and lib = exampleLib and activeConfig = exampleConfig
        and now = 0 and upstream = "\<lambda>sent. None" and poeAPIKey = "[]"
        and msg = "''API key required: please provide Authorization header or configure DEEPSEEK_API_KEY environment variable''"]
    models_need_key [where r = "\<lparr>rq_Method = ''GET'', rq_Path = ''/v1/models'', rq_RawQuery = [],
        rq_Header = [], rq_Body = Some []\<rparr>" and lib = exampleLib and activeConfig = exampleConfig
        and now = 0 and upstream = "\<lambda>sent. None" and poeAPIKey = "[]"
        and msg = "''Missing or invalid Authorization header''"]
  by (simp add: hasBearerToken_def HeaderGet_def HasPrefix_def)

text \<open>
  C1, as the code has it. The DeepSeek proxy substitutes its default for an empty model
  before it records the model to report. The Claude proxy substitutes the default only
  in the request it sends upstream and reports the model field of the inbound request
  as it came. For the request \<^verbatim>\<open>{"model":"","messages":[{"role":"user","content":"hi"}],"stream":false}\<close>
  the Claude proxy therefore asks the upstream for \<^verbatim>\<open>claude-sonnet-4.5\<close>, the configured
  default, and answers the caller with status 200 and the model \<^verbatim>\<open>""\<close>, not the
  effective model.
\<close>

theorem claude_reply_model_empty:
  \<open>w_Status (fst (proxyHandlerClaude exampleLib [] 0
       (exampleUpstream
          (exampleResponse 200 ''{"id":"r1","object":"chat.completion","created":1,"model":"claude-sonnet-4.5","choices":[],"usage":{"prompt_tokens":1,"completion_tokens":1,"total_tokens":2}}'' False)
          (exampleResponse 200 [] False))
       (exampleRequest\<lparr>rq_Body :=
          Some ''{"model":"","messages":[{"role":"user","content":"hi"}],"stream":false}''\<rparr>)))
     = Some 200
   \<and> w_Body (fst (proxyHandlerClaude exampleLib [] 0
       (exampleUpstream
          (exampleResponse 200 ''{"id":"r1","object":"chat.completion","created":1,"model":"claude-sonnet-4.5","choices":[],"usage":{"prompt_tokens":1,"completion_tokens":1,"total_tokens":2}}'' False)
          (exampleResponse 200 [] False))
       (exampleRequest\<lparr>rq_Body :=
          Some ''{"model":"","messages":[{"role":"user","content":"hi"}],"stream":false}''\<rparr>)))
     = ''{"id":"r1","object":"chat.completion","created":1,"model":"","choices":[],"usage":{"prompt_tokens":1,"completion_tokens":1,"total_tokens":2}}''
   \<and> map ur_Body (snd (proxyHandlerClaude exampleLib [] 0
       (exampleUpstream
          (exampleResponse 200 ''{"id":"r1","object":"chat.completion","created":1,"model":"claude-sonnet-4.5","choices":[],"usage":{"prompt_tokens":1,"completion_tokens":1,"total_tokens":2}}'' False)
          (exampleResponse 200 [] False))
       (exampleRequest\<lparr>rq_Body :=
          Some ''{"model":"","messages":[{"role":"user","content":"hi"}],"stream":false}''\<rparr>)))
     = [''{"model":"claude-sonnet-4.5","messages":[{"role":"user","content":"hi"}],"stream":false}'']\<close>
proof -
  let ?req = \<open>exampleRequest\<lparr>rq_Body :=
          Some ''{"model":"","messages":[{"role":"user","content":"hi"}],"stream":false}''\<rparr>\<close>
  let ?claudeReq = "\<lparr>clr_Model = [],
        clr_Messages = [\<lparr>cm_Role = ''user'', cm_Content = Some (JString ''hi''), cm_ToolCalls = [],
                          cm_ToolCallID = [], cm_Name = []\<rparr>],
        clr_MaxTokens = None, clr_System = [], clr_Tools = [], clr_ToolChoice = JNull,
        clr_Temperature = None, clr_Stream = False, clr_StreamOptions = None, clr_Metadata = None\<rparr>"
  have decode: \<open>UnmarshalClaudeRequest exampleLib
      ''{"model":"","messages":[{"role":"user","content":"hi"}],"stream":false}'' = Some ?claudeReq\<close>
    by (simp add: exampleLib_def exampleClaudeRequests_def)
  have convert: "encodeOpenAIRequest (convertClaudeToOpenAI (Marshal exampleLib) ?claudeReq)
      = JObject [(''model'', JString ''claude-sonnet-4.5''),
                  (''messages'', JArray [JObject [(''role'', JString ''user''), (''content'', JString ''hi'')]]),
                  (''stream'', JBool False)]"
    by (simp add: encodeOpenAIRequest_def convertClaudeToOpenAI_def systemMessages_def
        convertClaudeMessage_def regularMessage_def hasContent_def hasToolCalls_def
        defaultOpenAIModel_def encodeOpenAIMessage_def omitEmptyToolCalls_def omitEmptyString_def
        omitEmptyNumber_def)
  have encode: \<open>Marshal exampleLib (JObject [(''model'', JString ''claude-sonnet-4.5''),
                  (''messages'', JArray [JObject [(''role'', JString ''user''), (''content'', JString ''hi'')]]),
                  (''stream'', JBool False)])
      = Some ''{"model":"claude-sonnet-4.5","messages":[{"role":"user","content":"hi"}],"stream":false}''\<close>
    by (simp add: exampleLib_def exampleValues_def)
  have reply: \<open>handleRegularResponseClaude exampleLib (enableCors newResponseWriter)
      (exampleResponse 200 ''{"id":"r1","object":"chat.completion","created":1,"model":"claude-sonnet-4.5","choices":[],"usage":{"prompt_tokens":1,"completion_tokens":1,"total_tokens":2}}'' False)
      []
      = Write (WriteHeader (SetHeader (enableCors newResponseWriter) ''Content-Type'' ''application/json'') 200)
          ''{"id":"r1","object":"chat.completion","created":1,"model":"","choices":[],"usage":{"prompt_tokens":1,"completion_tokens":1,"total_tokens":2}}''\<close>
    by (simp add: handleRegularResponseClaude_def readResponse_def exampleResponse_def HeaderGet_def
        exampleLib_def exampleOpenAIResponses_def exampleValues_def encodeOpenAIResponse_def
        encodeUsage_def)
  have handler: \<open>proxyHandlerClaude exampleLib [] 0
       (exampleUpstream
          (exampleResponse 200 ''{"id":"r1","object":"chat.completion","created":1,"model":"claude-sonnet-4.5","choices":[],"usage":{"prompt_tokens":1,"completion_tokens":1,"total_tokens":2}}'' False)
          (exampleResponse 200 [] False)) ?req
     = (Write (WriteHeader (SetHeader (enableCors newResponseWriter) ''Content-Type'' ''application/json'') 200)
          ''{"id":"r1","object":"chat.completion","created":1,"model":"","choices":[],"usage":{"prompt_tokens":1,"completion_tokens":1,"total_tokens":2}}'',
        [\<lparr>ur_Method = ''POST'', ur_URL = openAIEndpoint @ ''/v1/chat/completions'',
          ur_Header = [(''Authorization'', [''Bearer k'']), (''Content-Type'', [''application/json''])],
          ur_Body = ''{"model":"claude-sonnet-4.5","messages":[{"role":"user","content":"hi"}],"stream":false}''\<rparr>])\<close>
    using decode convert encode reply
    by (simp add: proxyHandlerClaude_def exampleRequest_def HeaderGet_def HasPrefix_def TrimPrefix_def
        Let_def HeaderSet_def clientDo_def exampleUpstream_def)
      (simp add: exampleLib_def exampleResponse_def)
  show ?thesis
    unfolding handler
    by (simp add: Write_def WriteHeader_def SetHeader_def enableCors_def newResponseWriter_def Let_def)
qed

section \<open>Properties of the streaming handler\<close>

text \<open>
  What \<^verbatim>\<open>handleStreamingResponse\<close> leaves in a response writer whose header is not yet
  written, for an upstream status that \<^verbatim>\<open>WriteHeader\<close> accepts: the status, and after
  the bytes already written those the loop writes.
\<close>

lemma handleStreamingResponse_written:
  assumes "w_Status w = None" and "\<not> w_Panicked w"
    and "100 \<le> StatusCode resp" and "StatusCode resp \<le> 999"
  shows "w_Body (handleStreamingResponse lib w resp originalModel)
           = w_Body w @ fst (relayLoop lib originalModel (rsp_Body resp))
       \<and> w_Status (handleStreamingResponse lib w resp originalModel) = Some (StatusCode resp)
       \<and> w_Panicked (handleStreamingResponse lib w resp originalModel)
           = (snd (relayLoop lib originalModel (rsp_Body resp)) = Panic)"
  using assms
  by (simp add: handleStreamingResponse_def SetHeader_def WriteHeader_def Write_def Let_def
      split: prod.splits)

text \<open>
  The handler on a body that starts with a line \<^verbatim>\<open>data: \<close> and a payload that decodes to
  an object, then a blank line, then the line \<^verbatim>\<open>data: [DONE]\<close>: the client receives the
  event with its \<^verbatim>\<open>model\<close> member set to the model name the handler was given, the blank
  line and the end marker, and nothing of what follows in the body.
\<close>

lemma handleStreamingResponse_event_blank_done:
  assumes "w_Status w = None" and "\<not> w_Panicked w"
    and "100 \<le> StatusCode resp" and "StatusCode resp \<le> 999"
    and "rsp_Body resp = ''data: '' @ payload @ newline @ newline @ ''data: [DONE]'' @ newline @ rest"
    and "CHR 0x0A \<notin> set payload"
    and "TrimSpace (payload @ newline) \<noteq> ''[DONE]''"
    and "Unmarshal lib (TrimSpace (payload @ newline)) = Some (JObject kvs)"
    and "Marshal lib (JObject (AList.update ''model'' (JString originalModel) (storeMembers kvs [])))
           = Some modifiedData"
  shows "w_Body (handleStreamingResponse lib w resp originalModel)
           = w_Body w @ ''data: '' @ modifiedData @ newline @ newline @ newline
               @ ''data: [DONE]'' @ newline @ newline
       \<and> w_Status (handleStreamingResponse lib w resp originalModel) = Some (StatusCode resp)
       \<and> \<not> w_Panicked (handleStreamingResponse lib w resp originalModel)"
  using handleStreamingResponse_written [OF assms(1-4), of lib originalModel]
    relayLoop_event_blank_done [OF assms(6-9), of rest] assms(5)
  by simp

text \<open>
  C8. Let \<^verbatim>\<open>handleStreamingResponse\<close> run on a response writer whose header is not yet
  written and an upstream response with a status that \<^verbatim>\<open>WriteHeader\<close> accepts. Let the
  body of the response consist of complete lines \<open>pre\<close> that the relay relays without
  stopping, then a line \<^verbatim>\<open>data: \<close> with a payload that is not the end marker and that
  \<^verbatim>\<open>json.Unmarshal\<close> does not decode, then any input \<open>rest\<close>. Then the bytes the handler
  writes to the client are those it writes for \<open>pre\<close>, then that line as it came,
  then those it writes for \<open>rest\<close> on its own: the line is neither dropped nor
  changed, and it does not end the stream; the handler panics only if it does on
  \<open>rest\<close>.
\<close>

theorem relay_malformed_event:
  assumes "w_Status w = None" and "\<not> w_Panicked w"
    and "100 \<le> StatusCode resp" and "StatusCode resp \<le> 999"
    and "rsp_Body resp = pre @ ''data: '' @ payload @ newline @ rest"
    and "relayLoop lib originalModel pre = (out, EndOfInput)"
    and "pre = [] \<or> last pre = CHR 0x0A"
    and "CHR 0x0A \<notin> set payload"
    and "TrimSpace (payload @ newline) \<noteq> ''[DONE]''"
    and "\<not> decodes lib (TrimSpace (payload @ newline))"
  shows "w_Body (handleStreamingResponse lib w resp originalModel)
           = w_Body (handleStreamingResponse lib w (resp\<lparr>rsp_Body := pre\<rparr>) originalModel)
             @ ''data: '' @ payload @ newline
             @ w_Body (handleStreamingResponse lib (w\<lparr>w_Body := []\<rparr>) (resp\<lparr>rsp_Body := rest\<rparr>)
                         originalModel)
       \<and> w_Body (handleStreamingResponse lib w (resp\<lparr>rsp_Body := pre\<rparr>) originalModel) = w_Body w @ out
       \<and> w_Panicked (handleStreamingResponse lib w resp originalModel)
           = w_Panicked (handleStreamingResponse lib (w\<lparr>w_Body := []\<rparr>) (resp\<lparr>rsp_Body := rest\<rparr>)
                           originalModel)
       \<and> w_Status (handleStreamingResponse lib w resp originalModel) = Some (StatusCode resp)"
proof -
  have loop: "relayLoop lib originalModel (rsp_Body resp)
      = (out @ ''data: '' @ payload @ newline @ fst (relayLoop lib originalModel rest),
         snd (relayLoop lib originalModel rest))"
    using relayLoop_malformed_event [OF assms(6-10)] assms(5) by simp
  have whole: "w_Body (handleStreamingResponse lib w resp originalModel)
      = w_Body w @ out @ ''data: '' @ payload @ newline @ fst (relayLoop lib originalModel rest)"
    and panic: "w_Panicked (handleStreamingResponse lib w resp originalModel)
      = (snd (relayLoop lib originalModel rest) = Panic)"
    and status: "w_Status (handleStreamingResponse lib w resp originalModel) = Some (StatusCode resp)"
    using handleStreamingResponse_written [OF assms(1-4), of lib originalModel] loop by simp_all
  have before: "w_Body (handleStreamingResponse lib w (resp\<lparr>rsp_Body := pre\<rparr>) originalModel)
      = w_Body w @ out"
    using handleStreamingResponse_written [of w "resp\<lparr>rsp_Body := pre\<rparr>" lib originalModel]
      assms(1-4,6) by simp
  have after: "w_Body (handleStreamingResponse lib (w\<lparr>w_Body := []\<rparr>) (resp\<lparr>rsp_Body := rest\<rparr>)
        originalModel) = fst (relayLoop lib originalModel rest)"
    and panic': "w_Panicked (handleStreamingResponse lib (w\<lparr>w_Body := []\<rparr>)
        (resp\<lparr>rsp_Body := rest\<rparr>) originalModel) = (snd (relayLoop lib originalModel rest) = Panic)"
    using handleStreamingResponse_written [of "w\<lparr>w_Body := []\<rparr>" "resp\<lparr>rsp_Body := rest\<rparr>" lib
        originalModel] assms(1-4) by simp_all
  show ?thesis
    using whole panic status before after panic' by simp
qed

text \<open>
  The theorem at a response with status 200 whose body is a blank line, the truncated
  event \<^verbatim>\<open>{"id":\<close> and a well-formed event: the client receives all three, the second
  as it came.
\<close>

theorem relay_malformed_event_witness:
  \<open>w_Body (handleStreamingResponse exampleLib (enableCors newResponseWriter)
      (exampleResponse 200
         (newline @ ''data: {"id":'' @ newline @ ''data: {"id":"1","model":"x"}'' @ newline) False)
      ''deepseek-chat'')
   = newline @ ''data: {"id":'' @ newline @ ''data: {"id":"1","model":"deepseek-chat"}''
       @ newline @ newline\<close>
proof -
  let ?w = "enableCors newResponseWriter"
  have fresh: "w_Status ?w = None" "\<not> w_Panicked ?w" "w_Body ?w = []"
    using enableCors_fresh by simp_all
  have pre: "relayLoop exampleLib ''deepseek-chat'' newline = (newline, EndOfInput)"
    using relayLoop_line [of "[]" exampleLib "''deepseek-chat''" "[]"] TrimSpace_newline
    by (simp add: relayLoop.simps [of _ _ "[]"])
  have t: \<open>TrimSpace (''{"id":'' @ newline) = ''{"id":''\<close>
    by code_simp
  have d: \<open>\<not> decodes exampleLib ''{"id":''\<close>
    by (simp add: decodes_def exampleLib_def exampleValues_def)
  have t': \<open>TrimSpace (''{"id":"1","model":"x"}'' @ newline) = ''{"id":"1","model":"x"}''\<close>
    by code_simp
  have "HasPrefix (''data: {\"id\":\"1\",\"model\":\"x\"}'' @ newline) ''data: ''"
    by (simp add: HasPrefix_def)
  then have nonblank: "TrimSpace (''data: {\"id\":\"1\",\"model\":\"x\"}'' @ newline) \<noteq> []"
    by (rule TrimSpace_data_line)
  have rest: \<open>relayLoop exampleLib ''deepseek-chat'' (''data: {"id":"1","model":"x"}'' @ newline)
      = (''data: {"id":"1","model":"deepseek-chat"}'' @ newline @ newline, EndOfInput)\<close>
    using relayLoop_line [of \<open>''data: {"id":"1","model":"x"}''\<close> exampleLib "''deepseek-chat''" "[]"]
      t' nonblank
    by (simp add: relayLoop.simps [of _ _ "[]"] relayLine_def HasPrefix_def TrimPrefix_def
        exampleLib_def exampleValues_def storeMembers_def)
  have after: \<open>w_Body (handleStreamingResponse exampleLib (?w\<lparr>w_Body := []\<rparr>)
      (exampleResponse 200 (''data: {"id":"1","model":"x"}'' @ newline) False) ''deepseek-chat'')
      = ''data: {"id":"1","model":"deepseek-chat"}'' @ newline @ newline\<close>
    using handleStreamingResponse_written [of "?w\<lparr>w_Body := []\<rparr>"
        \<open>exampleResponse 200 (''data: {"id":"1","model":"x"}'' @ newline) False\<close> exampleLib
        "''deepseek-chat''"] fresh rest
    by (simp add: exampleResponse_def)
  show ?thesis
    using relay_malformed_event [where lib = exampleLib and originalModel = "''deepseek-chat''"
        and w = ?w
        and resp = \<open>exampleResponse 200
           (newline @ ''data: {"id":'' @ newline @ ''data: {"id":"1","model":"x"}'' @ newline) False\<close>
        and pre = newline and out = newline and payload = \<open>''{"id":''\<close>
        and rest = \<open>''data: {"id":"1","model":"x"}'' @ newline\<close>] fresh pre t d after
    by (simp add: newline_def exampleResponse_def)
qed

text \<open>
  C3, as the code has it. On a response whose body is an event line, a blank line and
  the line \<^verbatim>\<open>data: [DONE]\<close>, followed by further input, \<^verbatim>\<open>handleStreamingResponse\<close> writes
  the event with its \<^verbatim>\<open>model\<close> member set to the model name it was given, the blank
  line and \<^verbatim>\<open>data: [DONE]\<close> with two newlines, and nothing of the further input. The
  DeepSeek proxy gives it the effective model. The Claude proxy gives it the model
  field of the inbound request as it came: for a streaming request with the model
  \<^verbatim>\<open>""\<close> it asks the upstream for \<^verbatim>\<open>claude-sonnet-4.5\<close>, the configured default, and relays
  the event \<^verbatim>\<open>{"id":"1","model":"x"}\<close> as \<^verbatim>\<open>{"id":"1","model":""}\<close>, not with the effective
  model.
\<close>

theorem claude_stream_model_empty:
  \<open>w_Status (fst (proxyHandlerClaude exampleLib [] 0
       (exampleUpstream
          (exampleResponse 200
             (''data: {"id":"1","model":"x"}'' @ newline @ newline @ ''data: [DONE]'' @ newline
                @ ''data: {"id":"2","model":"x"}'' @ newline) False)
          (exampleResponse 200 [] False))
       (exampleRequest\<lparr>rq_Body :=
          Some ''{"model":"","messages":[{"role":"user","content":"hi"}],"stream":true}''\<rparr>)))
     = Some 200
   \<and> w_Body (fst (proxyHandlerClaude exampleLib [] 0
       (exampleUpstream
          (exampleResponse 200
             (''data: {"id":"1","model":"x"}'' @ newline @ newline @ ''data: [DONE]'' @ newline
                @ ''data: {"id":"2","model":"x"}'' @ newline) False)
          (exampleResponse 200 [] False))
       (exampleRequest\<lparr>rq_Body :=
          Some ''{"model":"","messages":[{"role":"user","content":"hi"}],"stream":true}''\<rparr>)))
     = ''data: {"id":"1","model":""}'' @ newline @ newline @ newline @ ''data: [DONE]'' @ newline @ newline
   \<and> map ur_Body (snd (proxyHandlerClaude exampleLib [] 0
       (exampleUpstream
          (exampleResponse 200
             (''data: {"id":"1","model":"x"}'' @ newline @ newline @ ''data: [DONE]'' @ newline
                @ ''data: {"id":"2","model":"x"}'' @ newline) False)
          (exampleResponse 200 [] False))
       (exampleRequest\<lparr>rq_Body :=
          Some ''{"model":"","messages":[{"role":"user","content":"hi"}],"stream":true}''\<rparr>)))
     = [''{"model":"claude-sonnet-4.5","messages":[{"role":"user","content":"hi"}],"stream":true}'']\<close>
proof -
  let ?req = \<open>exampleRequest\<lparr>rq_Body :=
          Some ''{"model":"","messages":[{"role":"user","content":"hi"}],"stream":true}''\<rparr>\<close>
  let ?resp = \<open>exampleResponse 200
             (''data: {"id":"1","model":"x"}'' @ newline @ newline @ ''data: [DONE]'' @ newline
                @ ''data: {"id":"2","model":"x"}'' @ newline) False\<close>
  let ?claudeReq = "\<lparr>clr_Model = [],
        clr_Messages = [\<lparr>cm_Role = ''user'', cm_Content = Some (JString ''hi''), cm_ToolCalls = [],
                          cm_ToolCallID = [], cm_Name = []\<rparr>],
        clr_MaxTokens = None, clr_System = [], clr_Tools = [], clr_ToolChoice = JNull,
        clr_Temperature = None, clr_Stream = True, clr_StreamOptions = None, clr_Metadata = None\<rparr>"
  let ?w = "enableCors newResponseWriter"
  have decode: \<open>UnmarshalClaudeRequest exampleLib
      ''{"model":"","messages":[{"role":"user","content":"hi"}],"stream":true}'' = Some ?claudeReq\<close>
    by (simp add: exampleLib_def exampleClaudeRequests_def)
  have convert: "encodeOpenAIRequest (convertClaudeToOpenAI (Marshal exampleLib) ?claudeReq)
      = JObject [(''model'', JString ''claude-sonnet-4.5''),
                  (''messages'', JArray [JObject [(''role'', JString ''user''), (''content'', JString ''hi'')]]),
                  (''stream'', JBool True)]"
    by (simp add: encodeOpenAIRequest_def convertClaudeToOpenAI_def systemMessages_def
        convertClaudeMessage_def regularMessage_def hasContent_def hasToolCalls_def
        defaultOpenAIModel_def encodeOpenAIMessage_def omitEmptyToolCalls_def omitEmptyString_def
        omitEmptyNumber_def)
  have encode: \<open>Marshal exampleLib (JObject [(''model'', JString ''claude-sonnet-4.5''),
                  (''messages'', JArray [JObject [(''role'', JString ''user''), (''content'', JString ''hi'')]]),
                  (''stream'', JBool True)])
      = Some ''{"model":"claude-sonnet-4.5","messages":[{"role":"user","content":"hi"}],"stream":true}''\<close>
    by (simp add: exampleLib_def exampleValues_def)
  have handler: \<open>proxyHandlerClaude exampleLib [] 0 (exampleUpstream ?resp (exampleResponse 200 [] False)) ?req
     = (handleStreamingResponse exampleLib ?w ?resp [],
        [\<lparr>ur_Method = ''POST'', ur_URL = openAIEndpoint @ ''/v1/chat/completions'',
          ur_Header = [(''Authorization'', [''Bearer k'']), (''Content-Type'', [''application/json'']),
                       (''Accept'', [''text/event-stream''])],
          ur_Body = ''{"model":"claude-sonnet-4.5","messages":[{"role":"user","content":"hi"}],"stream":true}''\<rparr>])\<close>
    using decode convert encode
    by (simp add: proxyHandlerClaude_def exampleRequest_def HeaderGet_def HasPrefix_def TrimPrefix_def
        Let_def HeaderSet_def clientDo_def exampleUpstream_def)
      (simp add: exampleLib_def exampleResponse_def)
  have t: \<open>TrimSpace (''{"id":"1","model":"x"}'' @ newline) = ''{"id":"1","model":"x"}''\<close>
    by code_simp
  have u: \<open>Unmarshal exampleLib ''{"id":"1","model":"x"}''
      = Some (JObject [(''id'', JString ''1''), (''model'', JString ''x'')])\<close>
    by (simp add: exampleLib_def exampleValues_def)
  have m: \<open>Marshal exampleLib (JObject (AList.update ''model'' (JString [])
        (storeMembers [(''id'', JString ''1''), (''model'', JString ''x'')] [])))
      = Some ''{"id":"1","model":""}''\<close>
    by (simp add: exampleLib_def exampleValues_def storeMembers_def)
  have fresh: "w_Status ?w = None" "\<not> w_Panicked ?w" "w_Body ?w = []"
    using enableCors_fresh by simp_all
  have resp: \<open>StatusCode ?resp = 200\<close>
    \<open>rsp_Body ?resp = ''data: '' @ ''{"id":"1","model":"x"}'' @ newline @ newline @ ''data: [DONE]''
       @ newline @ ''data: {"id":"2","model":"x"}'' @ newline\<close>
    by (simp_all add: exampleResponse_def)
  have written: \<open>w_Body (handleStreamingResponse exampleLib ?w ?resp [])
      = ''data: {"id":"1","model":""}'' @ newline @ newline @ newline @ ''data: [DONE]'' @ newline
          @ newline\<close>
    and status: "w_Status (handleStreamingResponse exampleLib ?w ?resp []) = Some 200"
    using handleStreamingResponse_event_blank_done [where w = ?w and resp = ?resp and lib = exampleLib
        and payload = \<open>''{"id":"1","model":"x"}''\<close>
        and kvs = "[(''id'', JString ''1''), (''model'', JString ''x'')]"
        and originalModel = "[]" and modifiedData = \<open>''{"id":"1","model":""}''\<close>
        and rest = \<open>''data: {"id":"2","model":"x"}'' @ newline\<close>] fresh resp t u m
    by simp_all
  show ?thesis
    unfolding handler using written status by simp
qed

end
